theory Spec2Isabelle
  imports Main "HOL-Library.Multiset"
begin

section \<open>Strings, regular expressions and paths\<close>

text \<open>
  JavaScript strings are modelled as \<^typ>\<open>string\<close>: a list of code units below 256.
  The three programs of the repository are called variant A (the first program of
  \<^verbatim>\<open>server.js\<close>, with the content sniff), variant B (the second program of
  \<^verbatim>\<open>server.js\<close>, with the batch deletion) and variant C (the small program with
  \<^verbatim>\<open>DELETE /image/:filename\<close> and \<^verbatim>\<open>GET /dashboard\<close>).
\<close>

definition is_upper :: "char \<Rightarrow> bool" where
  "is_upper c = (let n = (of_char c :: nat) in
     (65 \<le> n \<and> n \<le> 90) \<or> (192 \<le> n \<and> n \<le> 222 \<and> n \<noteq> 215))"

text \<open>\<^verbatim>\<open>String.prototype.toLowerCase\<close> on code units below 256.\<close>

definition lower_char :: "char \<Rightarrow> char" where
  "lower_char c = (if is_upper c then char_of ((of_char c :: nat) + 32) else c)"

definition toLowerCase :: "string \<Rightarrow> string" where
  "toLowerCase s = map lower_char s"

text \<open>
  Case folding of a regular expression with the flag \<^verbatim>\<open>i\<close> and without the flag
  \<^verbatim>\<open>u\<close>: a code unit of 128 or more never folds onto an ASCII letter, so against an
  ASCII pattern only \<^verbatim>\<open>A-Z\<close> fold.
\<close>

definition fold_char :: "char \<Rightarrow> char" where
  "fold_char c = (let n = (of_char c :: nat) in
     if 65 \<le> n \<and> n \<le> 90 then char_of (n + 32) else c)"

fun starts_with :: "string \<Rightarrow> string \<Rightarrow> bool" where
  "starts_with [] s = True"
| "starts_with (p # ps) [] = False"
| "starts_with (p # ps) (c # cs) = (p = c \<and> starts_with ps cs)"

text \<open>\<open>occurs pat s\<close>: the literal \<open>pat\<close> matches somewhere in \<open>s\<close> (an unanchored pattern).\<close>

fun occurs :: "string \<Rightarrow> string \<Rightarrow> bool" where
  "occurs pat [] = starts_with pat []"
| "occurs pat (c # cs) = (starts_with pat (c # cs) \<or> occurs pat cs)"

text \<open>\<^verbatim>\<open>/jpe?g|png|gif|webp/i.test(s)\<close> (variant A).\<close>

definition filetypes_test_A :: "string \<Rightarrow> bool" where
  "filetypes_test_A s = (let t = map fold_char s in
     occurs ''jpg'' t \<or> occurs ''jpeg'' t \<or> occurs ''png'' t \<or> occurs ''gif'' t
     \<or> occurs ''webp'' t)"

text \<open>\<^verbatim>\<open>/jpe?g|png|gif/.test(s)\<close> (variant B).\<close>

definition filetypes_test_B :: "string \<Rightarrow> bool" where
  "filetypes_test_B s =
     (occurs ''jpg'' s \<or> occurs ''jpeg'' s \<or> occurs ''png'' s \<or> occurs ''gif'' s)"

text \<open>\<^verbatim>\<open>\w\<close> is \<^verbatim>\<open>[A-Za-z0-9_]\<close>.\<close>

definition is_word_char :: "char \<Rightarrow> bool" where
  "is_word_char c = (let n = (of_char c :: nat) in
     (48 \<le> n \<and> n \<le> 57) \<or> (65 \<le> n \<and> n \<le> 90) \<or> n = 95 \<or> (97 \<le> n \<and> n \<le> 122))"

text \<open>\<^verbatim>\<open>/^[\w\-\.]+$/.test(s)\<close>.\<close>

definition safe_name :: "string \<Rightarrow> bool" where
  "safe_name s = (s \<noteq> [] \<and>
     list_all (\<lambda>c. is_word_char c \<or> c = CHR ''-'' \<or> c = CHR ''.'') s)"

text \<open>Splitting a path at every \<^verbatim>\<open>/\<close>; the result is never empty.\<close>

fun split_slash :: "string \<Rightarrow> string list" where
  "split_slash [] = [[]]"
| "split_slash (c # cs) =
     (if c = CHR ''/'' then [] # split_slash cs
      else (case split_slash cs of [] \<Rightarrow> [[c]] | seg # segs \<Rightarrow> (c # seg) # segs))"

fun strip_trailing_slashes :: "string \<Rightarrow> string" where
  "strip_trailing_slashes s = rev (dropWhile (\<lambda>c. c = CHR ''/'') (rev s))"

definition basename :: "string \<Rightarrow> string" where
  "basename s = last (split_slash (strip_trailing_slashes s))"

text \<open>Index of the last \<^verbatim>\<open>.\<close> of a string, if there is one.\<close>

fun last_dot :: "string \<Rightarrow> nat option" where
  "last_dot [] = None"
| "last_dot (c # cs) =
     (case last_dot cs of Some i \<Rightarrow> Some (Suc i)
      | None \<Rightarrow> (if c = CHR ''.'' then Some 0 else None))"

text \<open>
  \<^verbatim>\<open>path.extname\<close> (POSIX): from the last dot of the last portion of the path to its
  end; empty when there is no dot, when the only dot is the first character of the
  portion, and for the portion \<^verbatim>\<open>..\<close>.
\<close>

definition extname :: "string \<Rightarrow> string" where
  "extname p = (let b = basename p in
     case last_dot b of None \<Rightarrow> []
     | Some i \<Rightarrow> (if i = 0 \<or> b = ''..'' then [] else drop i b))"

section \<open>The filesystem\<close>

text \<open>
  A path is the list of its segments from the root. A filesystem is an association list
  from paths to nodes; its order is the order in which a directory is enumerated. A node
  is a regular file, with its bytes, or a directory; both have a modification time.
  Failures of the system that do not depend on the tree (permissions, a full disk, a
  path with a NUL character) are not modelled.
\<close>

type_synonym path = "string list"

datatype node = File (mtimeMs: int) (bytes: string) | Dir (mtimeMs: int)

type_synonym filesystem = "(path \<times> node) list"

text \<open>\<^verbatim>\<open>path.join(__dirname, 'public', 'uploads')\<close>; \<open>dirname\<close> is the program's directory.\<close>

definition uploadDir :: "path \<Rightarrow> path" where
  "uploadDir dirname = dirname @ [''public'', ''uploads'']"

text \<open>
  Normalisation of the segments of an absolute path: empty segments and \<^verbatim>\<open>.\<close> are
  dropped, \<^verbatim>\<open>..\<close> removes the segment before it and stays at the root.
\<close>

fun normalize_segs :: "path \<Rightarrow> string list \<Rightarrow> path" where
  "normalize_segs acc [] = acc"
| "normalize_segs acc (s # ss) =
     (if s = [] \<or> s = ''.'' then normalize_segs acc ss
      else if s = ''..'' then normalize_segs (butlast acc) ss
      else normalize_segs (acc @ [s]) ss)"

text \<open>
  \<^verbatim>\<open>path.join(dir, name)\<close> for a normalised absolute \<open>dir\<close>: the normalised segments, and
  whether the result keeps a trailing separator.
\<close>

definition path_join :: "path \<Rightarrow> string \<Rightarrow> path \<times> bool" where
  "path_join dir name =
     (normalize_segs dir (split_slash name), name \<noteq> [] \<and> last name = CHR ''/'')"

definition lookup :: "filesystem \<Rightarrow> path \<Rightarrow> node option" where
  "lookup fs p = map_of fs p"

definition remove :: "filesystem \<Rightarrow> path \<Rightarrow> filesystem" where
  "remove fs p = filter (\<lambda>e. fst e \<noteq> p) fs"

definition store :: "filesystem \<Rightarrow> path \<Rightarrow> node \<Rightarrow> filesystem" where
  "store fs p n = (if lookup fs p = None then fs @ [(p, n)]
     else map (\<lambda>e. if fst e = p then (p, n) else e) fs)"

text \<open>What a path names: a regular file is not reached through a trailing separator.\<close>

definition resolve :: "filesystem \<Rightarrow> path \<times> bool \<Rightarrow> node option" where
  "resolve fs fp = (case lookup fs (fst fp) of
       Some (File m b) \<Rightarrow> (if snd fp then None else Some (File m b))
     | r \<Rightarrow> r)"

datatype errno = ENOENT | ENOTDIR | EISDIR

definition render :: "path \<times> bool \<Rightarrow> string" where
  "render fp = concat (map (\<lambda>s. CHR ''/'' # s) (fst fp)) @ (if snd fp then ''/'' else [])"

text \<open>\<^verbatim>\<open>err.message\<close> of a failed system call.\<close>

definition message_of :: "errno \<Rightarrow> string \<Rightarrow> path \<times> bool \<Rightarrow> string" where
  "message_of e syscall fp = (case e of
       ENOENT \<Rightarrow> ''ENOENT: no such file or directory''
     | ENOTDIR \<Rightarrow> ''ENOTDIR: not a directory''
     | EISDIR \<Rightarrow> ''EISDIR: illegal operation on a directory'')
     @ '', '' @ syscall @ '' '' @ [CHR 0x27] @ render fp @ [CHR 0x27]"

definition existsSync :: "filesystem \<Rightarrow> path \<times> bool \<Rightarrow> bool" where
  "existsSync fs fp = (resolve fs fp \<noteq> None)"

text \<open>\<^verbatim>\<open>unlink\<close>: removes a regular file; fails on a directory and on a name nothing has.\<close>

definition unlinkSync :: "filesystem \<Rightarrow> path \<times> bool \<Rightarrow> errno + filesystem" where
  "unlinkSync fs fp = (case lookup fs (fst fp) of
       None \<Rightarrow> Inl ENOENT
     | Some (Dir m) \<Rightarrow> Inl EISDIR
     | Some (File m b) \<Rightarrow> (if snd fp then Inl ENOTDIR else Inr (remove fs (fst fp))))"

text \<open>The calls a handler makes to the \<^verbatim>\<open>fs\<close> module.\<close>

datatype fs_call = ExistsSync "path \<times> bool" | UnlinkSync "path \<times> bool" | Unlink "path \<times> bool"

section \<open>Deletion\<close>

text \<open>An entry of \<^verbatim>\<open>details\<close>: \<^verbatim>\<open>{ filename, status, message }\<close>.\<close>

datatype detail = Detail (filename: string) (status: string) (message: "string option")

text \<open>
  The body of the \<^verbatim>\<open>map\<close> callback of \<^verbatim>\<open>POST /delete\<close> (variant B) for one entry: the
  entry of \<^verbatim>\<open>details\<close>, the filesystem afterwards and the calls made to \<^verbatim>\<open>fs\<close>.
\<close>

definition delete_one :: "path \<Rightarrow> filesystem \<Rightarrow> string \<Rightarrow> detail \<times> filesystem \<times> fs_call list" where
  "delete_one dirname fs img =
     (if \<not> safe_name img then (Detail img ''error'' (Some ''Invalid filename''), fs, [])
      else let filePath = path_join (uploadDir dirname) img in
        if existsSync fs filePath then
          (case unlinkSync fs filePath of
             Inr fs' \<Rightarrow> (Detail img ''success'' None, fs', [ExistsSync filePath, UnlinkSync filePath])
           | Inl err \<Rightarrow> (Detail img ''error'' (Some (message_of err ''unlink'' filePath)), fs,
               [ExistsSync filePath, UnlinkSync filePath]))
        else (Detail img ''error'' (Some ''File not found''), fs, [ExistsSync filePath]))"

text \<open>\<^verbatim>\<open>imagesToDelete.map(...)\<close>: the entries in order, each with the calls made for it.\<close>

fun delete_each :: "path \<Rightarrow> filesystem \<Rightarrow> string list \<Rightarrow> (detail \<times> fs_call list) list \<times> filesystem" where
  "delete_each dirname fs [] = ([], fs)"
| "delete_each dirname fs (img # rest) =
     (case delete_one dirname fs img of (r, fs1, calls) \<Rightarrow>
        (case delete_each dirname fs1 rest of (rs, fs2) \<Rightarrow> ((r, calls) # rs, fs2)))"

datatype delete_response =
    NoImagesSelected
  | NoFilesDeleted (details: "detail list")
  | Deleted (deleted: nat) (total: nat) (details: "detail list")

fun delete_status :: "delete_response \<Rightarrow> nat" where
  "delete_status NoImagesSelected = 400"
| "delete_status (NoFilesDeleted ds) = 400"
| "delete_status (Deleted k n ds) = 200"

text \<open>
  \<^verbatim>\<open>POST /delete\<close> (variant B). \<open>body\<close> is \<^verbatim>\<open>req.body.imagesToDelete\<close> when it is an array
  (of strings), \<open>None\<close> otherwise. The result: the response, the filesystem afterwards
  and, for each entry of the request, the calls made to \<^verbatim>\<open>fs\<close> for it.
\<close>

definition post_delete ::
  "path \<Rightarrow> filesystem \<Rightarrow> string list option \<Rightarrow> delete_response \<times> filesystem \<times> fs_call list list" where
  "post_delete dirname fs body =
     (let imagesToDelete = (case body of Some xs \<Rightarrow> xs | None \<Rightarrow> []) in
      if length imagesToDelete = 0 then (NoImagesSelected, fs, [])
      else (case delete_each dirname fs imagesToDelete of (rs, fs') \<Rightarrow>
        let results = map fst rs;
            successCount = length (filter (\<lambda>r. status r = ''success'') results)
        in if successCount = 0 then (NoFilesDeleted results, fs', map snd rs)
           else (Deleted successCount (length imagesToDelete) results, fs', map snd rs)))"

text \<open>Whether a filename of a request names a regular file, or a directory, of the Store.\<close>

definition names_file :: "path \<Rightarrow> filesystem \<Rightarrow> string \<Rightarrow> bool" where
  "names_file dirname fs n = (case resolve fs (path_join (uploadDir dirname) n) of
     Some (File m b) \<Rightarrow> True | _ \<Rightarrow> False)"

definition names_dir :: "path \<Rightarrow> filesystem \<Rightarrow> string \<Rightarrow> bool" where
  "names_dir dirname fs n = (case resolve fs (path_join (uploadDir dirname) n) of
     Some (Dir m) \<Rightarrow> True | _ \<Rightarrow> False)"

definition successes :: "detail list \<Rightarrow> nat" where
  "successes ds = length (filter (\<lambda>r. status r = ''success'') ds)"

definition invalid_names :: "detail list \<Rightarrow> nat" where
  "invalid_names ds =
     length (filter (\<lambda>r. status r = ''error'' \<and> message r = Some ''Invalid filename'') ds)"

definition not_founds :: "detail list \<Rightarrow> nat" where
  "not_founds ds =
     length (filter (\<lambda>r. status r = ''error'' \<and> message r = Some ''File not found'') ds)"

datatype single_response = SuccessTrue | FailedToDelete


text \<open>\<^verbatim>\<open>DELETE /image/:filename\<close> (variant C).\<close>

definition delete_image ::
  "path \<Rightarrow> filesystem \<Rightarrow> string \<Rightarrow> single_response \<times> filesystem \<times> fs_call list" where
  "delete_image dirname fs fname =
     (let filePath = path_join (uploadDir dirname) fname in
      case unlinkSync fs filePath of
        Inl err \<Rightarrow> (FailedToDelete, fs, [Unlink filePath])
      | Inr fs' \<Rightarrow> (SuccessTrue, fs', [Unlink filePath]))"

section \<open>The upload type filter\<close>

record part =
  fieldname :: string
  originalname :: string
  mimetype :: string
  data :: string

text \<open>\<^verbatim>\<open>fileFilter\<close> of variant A: \<open>True\<close> is \<^verbatim>\<open>cb(null, true)\<close>, \<open>False\<close> is \<^verbatim>\<open>cb(new Error(...))\<close>.\<close>

definition fileFilter_A :: "part \<Rightarrow> bool" where
  "fileFilter_A file = (let mimetype = filetypes_test_A (mimetype file);
       extname = filetypes_test_A (extname (originalname file))
     in mimetype \<and> extname)"

text \<open>\<^verbatim>\<open>fileFilter\<close> of variant B.\<close>

definition fileFilter_B :: "part \<Rightarrow> bool" where
  "fileFilter_B file = (let mimetype = filetypes_test_B (mimetype file);
       extname = filetypes_test_B (toLowerCase (extname (originalname file)))
     in mimetype \<and> extname)"

text \<open>The MIME types that variant A reports as allowed in its failure response.\<close>

definition allowedTypes :: "string list" where
  "allowedTypes = [''image/jpeg'', ''image/png'', ''image/gif'', ''image/webp'']"

section \<open>Upload\<close>

text \<open>The decimal digits of a number: \<^verbatim>\<open>String(n)\<close> for a non-negative integer below \<^verbatim>\<open>1e21\<close>.\<close>

definition digit_char :: "nat \<Rightarrow> char" where
  "digit_char d = char_of (48 + d)"

fun show_nat :: "nat \<Rightarrow> string" where
  "show_nat n = (if n < 10 then [digit_char n] else show_nat (n div 10) @ [digit_char (n mod 10)])"

declare show_nat.simps [simp del]

definition is_digit :: "char \<Rightarrow> bool" where
  "is_digit c = (let n = (of_char c :: nat) in 48 \<le> n \<and> n \<le> 57)"

text \<open>
  \<^verbatim>\<open>storage.filename\<close> of variants A and B. \<open>now\<close> is \<^verbatim>\<open>Date.now()\<close> and \<open>rnd\<close> is
  \<^verbatim>\<open>Math.round(Math.random() * 1E9)\<close>.
\<close>

definition filename_AB :: "nat \<Rightarrow> nat \<Rightarrow> part \<Rightarrow> string" where
  "filename_AB now rnd file = (let uniqueSuffix = show_nat now @ ''-'' @ show_nat rnd
     in uniqueSuffix @ toLowerCase (extname (originalname file)))"

text \<open>\<^verbatim>\<open>storage.filename\<close> of variant C.\<close>

definition filename_C :: "nat \<Rightarrow> nat \<Rightarrow> part \<Rightarrow> string" where
  "filename_C now rnd file = show_nat now @ extname (originalname file)"

text \<open>
  The options a program gives to \<^verbatim>\<open>multer\<close>: the filter (absent: every file passes), the
  name generator of the disk storage, and the limits (\<open>None\<close>: no limit).
\<close>

record multer_options =
  fileFilter :: "part \<Rightarrow> bool"
  storage_filename :: "nat \<Rightarrow> nat \<Rightarrow> part \<Rightarrow> string"
  fileSize :: "nat option"
  files :: "nat option"

definition upload_A :: multer_options where
  "upload_A = \<lparr>fileFilter = fileFilter_A, storage_filename = filename_AB,
     fileSize = Some (10 * 1024 * 1024), files = Some 1\<rparr>"

definition upload_B :: multer_options where
  "upload_B = \<lparr>fileFilter = fileFilter_B, storage_filename = filename_AB,
     fileSize = Some (10 * 1024 * 1024), files = Some 1\<rparr>"

definition upload_C :: multer_options where
  "upload_C = \<lparr>fileFilter = (\<lambda>file. True), storage_filename = filename_C,
     fileSize = None, files = None\<rparr>"

text \<open>\<^verbatim>\<open>req.file\<close>: the fields of the stored file that the handlers read.\<close>

record req_file =
  stored_filename :: string
  stored_size :: nat
  stored_mimetype :: string
  stored_path :: "path \<times> bool"

datatype multer_error =
    LIMIT_FILE_SIZE | LIMIT_FILE_COUNT | LIMIT_UNEXPECTED_FILE | FILTER_ERROR | STORAGE_ERROR errno

text \<open>
  Writing a file: its directory must be there; it fails through a trailing separator and
  on a directory.
\<close>

definition writeFile :: "filesystem \<Rightarrow> path \<times> bool \<Rightarrow> int \<Rightarrow> string \<Rightarrow> errno + filesystem" where
  "writeFile fs fp t buffer =
     (if snd fp then Inl ENOTDIR
      else case lookup fs (butlast (fst fp)) of
          None \<Rightarrow> Inl ENOENT
        | Some (File m b) \<Rightarrow> Inl ENOTDIR
        | Some (Dir m) \<Rightarrow>
            (case lookup fs (fst fp) of
               Some (Dir m') \<Rightarrow> Inl EISDIR
             | _ \<Rightarrow> Inr (store fs (fst fp) (File t buffer))))"

definition over_limit :: "nat option \<Rightarrow> nat \<Rightarrow> bool" where
  "over_limit limit n = (case limit of None \<Rightarrow> False | Some l \<Rightarrow> l < n)"

definition reached_limit :: "nat option \<Rightarrow> nat \<Rightarrow> bool" where
  "reached_limit limit n = (case limit of None \<Rightarrow> False | Some l \<Rightarrow> l \<le> n)"

text \<open>
  How \<^verbatim>\<open>multer\<close> ends a request with an error: the files it has stored for this request
  are removed, then the error goes to the error handler.
\<close>

definition abortWithError ::
  "filesystem \<Rightarrow> req_file list \<Rightarrow> multer_error \<Rightarrow> (multer_error + req_file option) \<times> filesystem" where
  "abortWithError fs uploadedFiles err =
     (Inl err, foldl (\<lambda>s f. remove s (fst (stored_path f))) fs uploadedFiles)"

text \<open>
  \<^verbatim>\<open>upload.single('image')\<close> over the file parts of a multipart body, in order. \<open>nfiles\<close>
  counts the file parts seen (the limit \<^verbatim>\<open>files\<close>), \<open>filesLeft\<close> is what the field
  \<^verbatim>\<open>image\<close> may still take, \<open>uploadedFiles\<close> are the files stored so far, the latest first.
  For each part: the limit on the number of files; a part without a filename is skipped;
  a part of another field, or a second one of the field, is unexpected; then the filter
  of the program; then the disk storage writes the bytes, up to the limit on the size,
  under the generated name, and a part over that limit ends the request.
\<close>

fun multer_parts ::
  "multer_options \<Rightarrow> path \<Rightarrow> nat \<Rightarrow> nat \<Rightarrow> filesystem \<Rightarrow> nat \<Rightarrow> nat \<Rightarrow> req_file list
    \<Rightarrow> part list \<Rightarrow> (multer_error + req_file option) \<times> filesystem" where
  "multer_parts opts dest now rnd fs nfiles filesLeft uploadedFiles [] =
     (Inr (case uploadedFiles of [] \<Rightarrow> None | f # fs' \<Rightarrow> Some f), fs)"
| "multer_parts opts dest now rnd fs nfiles filesLeft uploadedFiles (file # rest) =
     (if reached_limit (files opts) nfiles then abortWithError fs uploadedFiles LIMIT_FILE_COUNT
      else if originalname file = [] then
        multer_parts opts dest now rnd fs (Suc nfiles) filesLeft uploadedFiles rest
      else if fieldname file \<noteq> ''image'' \<or> filesLeft = 0 then
        abortWithError fs uploadedFiles LIMIT_UNEXPECTED_FILE
      else if \<not> fileFilter opts file then abortWithError fs uploadedFiles FILTER_ERROR
      else
        let name = storage_filename opts now rnd file;
            finalPath = path_join dest name;
            written = (case fileSize opts of None \<Rightarrow> data file | Some l \<Rightarrow> take l (data file))
        in (case writeFile fs finalPath (int now) written of
              Inl e \<Rightarrow> abortWithError fs uploadedFiles (STORAGE_ERROR e)
            | Inr fs1 \<Rightarrow>
                let info = \<lparr>stored_filename = name, stored_size = length written,
                      stored_mimetype = mimetype file, stored_path = finalPath\<rparr>
                in if over_limit (fileSize opts) (length (data file)) then
                     abortWithError fs1 (info # uploadedFiles) LIMIT_FILE_SIZE
                   else multer_parts opts dest now rnd fs1 (Suc nfiles) (filesLeft - 1)
                          (info # uploadedFiles) rest))"

text \<open>A request to \<^verbatim>\<open>POST /upload\<close>: its file parts, the clock and the random number.\<close>

record upload_request =
  parts :: "part list"
  now :: nat
  random :: nat

definition multer_single ::
  "multer_options \<Rightarrow> path \<Rightarrow> filesystem \<Rightarrow> upload_request
    \<Rightarrow> (multer_error + req_file option) \<times> filesystem" where
  "multer_single opts dest fs req =
     multer_parts opts dest (now req) (random req) fs 0 1 [] (parts req)"

text \<open>
  What the call \<^verbatim>\<open>fileType.fromBuffer(buffer)\<close> gives back to \<^verbatim>\<open>validateImage\<close>: nothing, a
  type, or, when the function of the package is asynchronous, a promise.
\<close>

record file_type =
  ext :: string
  mime :: string

datatype sniffed = Undefined | Type file_type | Promise

definition readFileSync :: "filesystem \<Rightarrow> path \<times> bool \<Rightarrow> errno + string" where
  "readFileSync fs fp = (case lookup fs (fst fp) of
       None \<Rightarrow> Inl ENOENT
     | Some (Dir m) \<Rightarrow> Inl EISDIR
     | Some (File m b) \<Rightarrow> (if snd fp then Inl ENOTDIR else Inr b))"

text \<open>The message of the \<^verbatim>\<open>TypeError\<close> for \<^verbatim>\<open>undefined.startsWith\<close>.\<close>

definition type_error_message :: string where
  "type_error_message =
     ''Cannot read properties of undefined (reading '' @ [CHR 0x27] @ ''startsWith'' @ [CHR 0x27] @ '')''"

text \<open>
  \<^verbatim>\<open>validateImage\<close> (variant A), with the sniffer \<^verbatim>\<open>fileType.fromBuffer\<close> as a parameter.
  \<open>Inl\<close> is the message of the error thrown. The test is
  \<^verbatim>\<open>!type || !type.mime.startsWith('image/')\<close>: a promise is not falsy and has no \<^verbatim>\<open>mime\<close>,
  so for a promise the test itself throws, before \<^verbatim>\<open>unlinkSync\<close>.
\<close>

definition validateImage ::
  "(string \<Rightarrow> sniffed) \<Rightarrow> filesystem \<Rightarrow> path \<times> bool \<Rightarrow> (string + bool) \<times> filesystem" where
  "validateImage fromBuffer fs filePath =
     (case readFileSync fs filePath of
        Inl e \<Rightarrow> (Inl (message_of e ''open'' filePath), fs)
      | Inr buffer \<Rightarrow>
          (let type = fromBuffer buffer;
               refuse = (case unlinkSync fs filePath of
                  Inl e \<Rightarrow> (Inl (message_of e ''unlink'' filePath), fs)
                | Inr fs' \<Rightarrow> (Inl ''Invalid image content'', fs'))
           in case type of
                Undefined \<Rightarrow> refuse
              | Promise \<Rightarrow> (Inl type_error_message, fs)
              | Type t \<Rightarrow> (if \<not> starts_with ''image/'' (mime t) then refuse else (Inr True, fs))))"

text \<open>
  The responses of \<^verbatim>\<open>POST /upload\<close>. \<open>Uploaded\<close> is the success response with the fields
  the variant sends: variant A \<^verbatim>\<open>filename\<close> and \<^verbatim>\<open>url\<close>, variant B also \<^verbatim>\<open>size\<close> and
  \<^verbatim>\<open>mimetype\<close>, variant C only \<^verbatim>\<open>url\<close>. \<open>Rejected\<close> is the answer of variant A to an error
  caught in its handler, with the message of the error. \<open>UploadError\<close> is an error of
  \<^verbatim>\<open>multer\<close>, left to the error handler.
\<close>

datatype upload_response =
    is_Uploaded: Uploaded (up_filename: "string option") (up_size: "nat option") (up_url: string)
      (up_mimetype: "string option")
  | NoFileUploaded
  | Rejected string
  | UploadError multer_error
  | TooManyRequests

text \<open>
  \<^verbatim>\<open>POST /upload\<close> of variant A: the rate limiter (\<open>limited\<close>: the limiter refuses the
  request), \<^verbatim>\<open>upload.single('image')\<close>, then the handler with \<^verbatim>\<open>validateImage\<close>.
\<close>

definition post_upload_A ::
  "(string \<Rightarrow> sniffed) \<Rightarrow> path \<Rightarrow> bool \<Rightarrow> filesystem \<Rightarrow> upload_request
    \<Rightarrow> upload_response \<times> filesystem" where
  "post_upload_A fromBuffer dirname limited fs req =
     (if limited then (TooManyRequests, fs)
      else case multer_single upload_A (uploadDir dirname) fs req of
          (Inl err, fs1) \<Rightarrow> (UploadError err, fs1)
        | (Inr None, fs1) \<Rightarrow> (NoFileUploaded, fs1)
        | (Inr (Some file), fs1) \<Rightarrow>
            (case validateImage fromBuffer fs1
                (path_join (uploadDir dirname) (stored_filename file)) of
               (Inl msg, fs2) \<Rightarrow> (Rejected msg, fs2)
             | (Inr ok, fs2) \<Rightarrow>
                 (Uploaded (Some (stored_filename file)) None
                    (''/uploads/'' @ stored_filename file) None, fs2)))"

text \<open>\<^verbatim>\<open>POST /upload\<close> of variant B: no content sniff.\<close>

definition post_upload_B ::
  "path \<Rightarrow> bool \<Rightarrow> filesystem \<Rightarrow> upload_request \<Rightarrow> upload_response \<times> filesystem" where
  "post_upload_B dirname limited fs req =
     (if limited then (TooManyRequests, fs)
      else case multer_single upload_B (uploadDir dirname) fs req of
          (Inl err, fs1) \<Rightarrow> (UploadError err, fs1)
        | (Inr None, fs1) \<Rightarrow> (NoFileUploaded, fs1)
        | (Inr (Some file), fs1) \<Rightarrow>
            (let fileUrl = ''/uploads/'' @ stored_filename file
             in (Uploaded (Some (stored_filename file)) (Some (stored_size file)) fileUrl
                  (Some (stored_mimetype file)), fs1)))"

text \<open>\<^verbatim>\<open>POST /upload\<close> of variant C: no rate limiter, no filter, no limits.\<close>

definition post_upload_C ::
  "path \<Rightarrow> filesystem \<Rightarrow> upload_request \<Rightarrow> upload_response \<times> filesystem" where
  "post_upload_C dirname fs req =
     (case multer_single upload_C (uploadDir dirname) fs req of
        (Inl err, fs1) \<Rightarrow> (UploadError err, fs1)
      | (Inr None, fs1) \<Rightarrow> (NoFileUploaded, fs1)
      | (Inr (Some file), fs1) \<Rightarrow>
          (Uploaded None None (''/uploads/'' @ stored_filename file) None, fs1))"

text \<open>
  The call \<^verbatim>\<open>fileType.fromBuffer(buffer)\<close> of the package: its function is asynchronous, so
  the call answers with a promise, for every buffer.
\<close>

definition sniff_async :: "string \<Rightarrow> sniffed" where
  "sniff_async buffer = Promise"


text \<open>
  What \<^verbatim>\<open>upload.single('image')\<close> asks of a request before it sets \<^verbatim>\<open>req.file\<close>, when at
  most one file part is allowed: one file part, with a filename, in the field \<^verbatim>\<open>image\<close>,
  that passes the filter and is not over the limit on the size.
\<close>

definition passes :: "multer_options \<Rightarrow> upload_request \<Rightarrow> part \<Rightarrow> bool" where
  "passes opts req file = (parts req = [file] \<and> originalname file \<noteq> []
     \<and> fieldname file = ''image'' \<and> fileFilter opts file
     \<and> \<not> over_limit (fileSize opts) (length (data file)))"

section \<open>Listing\<close>

text \<open>\<^verbatim>\<open>fs.readdirSync\<close>: the names of the entries of a directory, in enumeration order.\<close>

definition readdirSync :: "filesystem \<Rightarrow> path \<Rightarrow> errno + string list" where
  "readdirSync fs dir = (case lookup fs dir of
       None \<Rightarrow> Inl ENOENT
     | Some (File m b) \<Rightarrow> Inl ENOTDIR
     | Some (Dir m) \<Rightarrow>
         Inr (map (\<lambda>e. last (fst e)) (filter (\<lambda>e. fst e \<noteq> [] \<and> butlast (fst e) = dir) fs)))"

text \<open>\<^verbatim>\<open>fs.statSync(p).mtimeMs\<close>.\<close>

definition statSync :: "filesystem \<Rightarrow> path \<times> bool \<Rightarrow> errno + int" where
  "statSync fs fp = (case resolve fs fp of None \<Rightarrow> Inl ENOENT | Some n \<Rightarrow> Inr (mtimeMs n))"

text \<open>
  \<^verbatim>\<open>Array.prototype.sort\<close> with a comparator: a stable sort. An element goes before the
  first element that the comparator does not put before it.
\<close>

fun insert_sorted :: "('a \<Rightarrow> 'a \<Rightarrow> int) \<Rightarrow> 'a \<Rightarrow> 'a list \<Rightarrow> 'a list" where
  "insert_sorted cmp x [] = [x]"
| "insert_sorted cmp x (y # ys) =
     (if cmp x y \<le> 0 then x # y # ys else y # insert_sorted cmp x ys)"

definition array_sort :: "('a \<Rightarrow> 'a \<Rightarrow> int) \<Rightarrow> 'a list \<Rightarrow> 'a list" where
  "array_sort cmp xs = foldr (insert_sorted cmp) xs []"

text \<open>The modification time that the comparator of the dashboard reads for a name.\<close>

definition mtime_of :: "path \<Rightarrow> filesystem \<Rightarrow> string \<Rightarrow> int" where
  "mtime_of dirname fs name = (case statSync fs (path_join (uploadDir dirname) name) of
     Inr m \<Rightarrow> m | Inl e \<Rightarrow> 0)"

definition stat_fails :: "path \<Rightarrow> filesystem \<Rightarrow> string \<Rightarrow> bool" where
  "stat_fails dirname fs name = (case statSync fs (path_join (uploadDir dirname) name) of
     Inr m \<Rightarrow> False | Inl e \<Rightarrow> True)"

datatype dashboard_response =
    Page "string list"
  | Gallery "(string \<times> string) list"
  | ErrorLoading

text \<open>
  \<^verbatim>\<open>GET /\<close> of variants A and B, for the list \<open>exts\<close> of extensions of the variant: the
  names that the page shows, in order. An exception of \<^verbatim>\<open>readdirSync\<close>, or of \<^verbatim>\<open>statSync\<close>
  in the comparator (called as soon as there are two names to compare), is answered
  with status 500.
\<close>

definition dashboard :: "string list \<Rightarrow> path \<Rightarrow> filesystem \<Rightarrow> dashboard_response" where
  "dashboard exts dirname fs = (case readdirSync fs (uploadDir dirname) of
       Inl e \<Rightarrow> ErrorLoading
     | Inr names \<Rightarrow>
         let images = filter (\<lambda>file. toLowerCase (extname file) \<in> set exts) names in
         if 2 \<le> length images \<and> list_ex (stat_fails dirname fs) images then ErrorLoading
         else Page (array_sort (\<lambda>a b. mtime_of dirname fs b - mtime_of dirname fs a) images))"

definition dashboard_A :: "path \<Rightarrow> filesystem \<Rightarrow> dashboard_response" where
  "dashboard_A = dashboard [''.jpg'', ''.jpeg'', ''.png'', ''.gif'', ''.webp'']"

definition dashboard_B :: "path \<Rightarrow> filesystem \<Rightarrow> dashboard_response" where
  "dashboard_B = dashboard [''.jpg'', ''.jpeg'', ''.png'', ''.gif'']"

text \<open>\<^verbatim>\<open>GET /dashboard\<close> of variant C: every entry, with its URL, as \<^verbatim>\<open>readdir\<close> gives them.\<close>

definition dashboard_C :: "path \<Rightarrow> filesystem \<Rightarrow> dashboard_response" where
  "dashboard_C dirname fs = (case readdirSync fs (uploadDir dirname) of
       Inl err \<Rightarrow> ErrorLoading
     | Inr names \<Rightarrow> Gallery (map (\<lambda>file. (file, ''/uploads/'' @ file)) names))"

section \<open>Properties of deletion\<close>

lemma safe_name_no_slash: "safe_name n \<Longrightarrow> CHR ''/'' \<notin> set n"
  by (auto simp: safe_name_def list_all_iff is_word_char_def)

lemma split_slash_no_slash: "CHR ''/'' \<notin> set n \<Longrightarrow> split_slash n = [n]"
  by (induction n) auto

lemma path_join_safe:
  assumes "safe_name n"
  shows "path_join (uploadDir d) n =
     (if n = ''.'' then uploadDir d else if n = ''..'' then d @ [''public'']
      else uploadDir d @ [n], False)"
proof -
  have ns: "CHR ''/'' \<notin> set n" using assms by (rule safe_name_no_slash)
  have ne: "n \<noteq> []" using assms by (simp add: safe_name_def)
  have "last n \<in> set n" using ne by simp
  then have "last n \<noteq> CHR ''/''" using ns by metis
  then show ?thesis
    using ne by (simp add: path_join_def split_slash_no_slash [OF ns] uploadDir_def butlast_append)
qed

lemma lookup_remove: "lookup (remove fs p) q = (if q = p then None else lookup fs q)"
  by (induction fs) (auto simp: lookup_def remove_def)


lemma delete_one_unsafe:
  "\<not> safe_name img \<Longrightarrow>
     delete_one d fs img = (Detail img ''error'' (Some ''Invalid filename''), fs, [])"
  by (simp add: delete_one_def)



lemma delete_each_length: "delete_each d fs xs = (rs, fs') \<Longrightarrow> length rs = length xs"
  by (induction xs arbitrary: fs rs fs') (auto split: prod.splits)

lemma delete_each_unsafe:
  "delete_each d fs xs = (rs, fs') \<Longrightarrow> i < length xs \<Longrightarrow> \<not> safe_name (xs ! i) \<Longrightarrow>
     rs ! i = (Detail (xs ! i) ''error'' (Some ''Invalid filename''), [])"
proof (induction xs arbitrary: fs rs fs' i)
  case Nil
  then show ?case by simp
next
  case (Cons x xs)
  then show ?case
    by (cases i) (auto split: prod.splits simp: delete_one_unsafe)
qed


lemma resolve_remove:
  "resolve (remove fs p) fp = (if fst fp = p then None else resolve fs fp)"
  by (simp add: resolve_def lookup_remove)

lemma path_join_inj:
  assumes "safe_name a" "safe_name b"
    and "fst (path_join (uploadDir d) a) = fst (path_join (uploadDir d) b)"
  shows "a = b"
proof -
  have "(if a = ''.'' then uploadDir d else if a = ''..'' then d @ [''public'']
      else uploadDir d @ [a])
    = (if b = ''.'' then uploadDir d else if b = ''..'' then d @ [''public'']
      else uploadDir d @ [b])"
    using assms(3) by (simp only: path_join_safe [OF assms(1)] path_join_safe [OF assms(2)] fst_conv)
  then show ?thesis
    by (auto simp: uploadDir_def split: if_splits)
qed

lemma delete_one_cases:
  assumes "delete_one d fs x = (r, fs1, c)"
  shows "(\<not> safe_name x \<and> r = Detail x ''error'' (Some ''Invalid filename'') \<and> fs1 = fs)
    \<or> (safe_name x \<and> names_file d fs x \<and> r = Detail x ''success'' None
        \<and> fs1 = remove fs (fst (path_join (uploadDir d) x)))
    \<or> (safe_name x \<and> \<not> names_file d fs x \<and> \<not> names_dir d fs x
        \<and> r = Detail x ''error'' (Some ''File not found'') \<and> fs1 = fs)
    \<or> (safe_name x \<and> names_dir d fs x \<and> fs1 = fs)"
  using assms
  by (auto simp: delete_one_def Let_def existsSync_def unlinkSync_def resolve_def names_file_def
      names_dir_def split: if_splits option.splits node.splits sum.splits)

lemma names_file_remove:
  assumes "safe_name x" "safe_name n"
  shows "names_file d (remove fs (fst (path_join (uploadDir d) x))) n
     = (names_file d fs n \<and> n \<noteq> x)"
  using path_join_inj [OF assms(2) assms(1), of d]
  by (auto simp: names_file_def resolve_remove split: option.splits node.splits)

lemma names_dir_remove:
  "names_dir d (remove fs p) n \<Longrightarrow> names_dir d fs n"
  by (auto simp: names_dir_def resolve_remove split: option.splits node.splits if_splits)

lemma delete_each_successes:
  assumes "delete_each d fs xs = (rs, fs')"
    and "\<forall>n\<in>set xs. safe_name n \<longrightarrow> \<not> names_dir d fs n"
  shows "successes (map fst rs) = card {n \<in> set xs. safe_name n \<and> names_file d fs n}"
  using assms
proof (induction xs arbitrary: fs rs fs')
  case Nil
  then show ?case by (simp add: successes_def)
next
  case (Cons x xs)
  obtain r fs1 c where one: "delete_one d fs x = (r, fs1, c)"
    by (cases "delete_one d fs x") auto
  obtain rs1 where rest: "delete_each d fs1 xs = (rs1, fs')" and rs: "rs = (r, c) # rs1"
    using Cons.prems(1) one by (auto split: prod.splits)
  have nodir: "\<not> (safe_name x \<and> names_dir d fs x)" using Cons.prems(2) by simp
  from delete_one_cases [OF one] nodir
  consider (bad) "\<not> safe_name x" "r = Detail x ''error'' (Some ''Invalid filename'')" "fs1 = fs"
    | (del) "safe_name x" "names_file d fs x" "r = Detail x ''success'' None"
        "fs1 = remove fs (fst (path_join (uploadDir d) x))"
    | (nf) "safe_name x" "\<not> names_file d fs x" "r = Detail x ''error'' (Some ''File not found'')"
        "fs1 = fs"
    by blast
  then show ?case
  proof cases
    case bad
    have "successes (map fst rs1) = card {n \<in> set xs. safe_name n \<and> names_file d fs n}"
      using Cons.IH [OF rest] Cons.prems(2) bad(3) by simp
    moreover have "{n \<in> set (x # xs). safe_name n \<and> names_file d fs n}
        = {n \<in> set xs. safe_name n \<and> names_file d fs n}"
      using bad(1) by auto
    ultimately show ?thesis using rs bad(2) by (simp add: successes_def)
  next
    case nf
    have "successes (map fst rs1) = card {n \<in> set xs. safe_name n \<and> names_file d fs n}"
      using Cons.IH [OF rest] Cons.prems(2) nf(4) by simp
    moreover have "{n \<in> set (x # xs). safe_name n \<and> names_file d fs n}
        = {n \<in> set xs. safe_name n \<and> names_file d fs n}"
      using nf(2) by auto
    ultimately show ?thesis using rs nf(3) by (simp add: successes_def)
  next
    case del
    have nd: "\<forall>n\<in>set xs. safe_name n \<longrightarrow> \<not> names_dir d fs1 n"
      using Cons.prems(2) del(4) by (auto dest: names_dir_remove)
    have ih: "successes (map fst rs1) = card {n \<in> set xs. safe_name n \<and> names_file d fs1 n}"
      using Cons.IH [OF rest nd] .
    have eq1: "{n \<in> set xs. safe_name n \<and> names_file d fs1 n}
        = {n \<in> set xs. safe_name n \<and> names_file d fs n} - {x}"
      using del(1,4) by (auto simp: names_file_remove)
    have eq2: "{n \<in> set (x # xs). safe_name n \<and> names_file d fs n}
        = insert x ({n \<in> set xs. safe_name n \<and> names_file d fs n} - {x})"
      using del(1,2) by auto
    have "card {n \<in> set (x # xs). safe_name n \<and> names_file d fs n}
        = Suc (card {n \<in> set xs. safe_name n \<and> names_file d fs1 n})"
      unfolding eq2 eq1 by (subst card_insert_disjoint) auto
    then show ?thesis using ih rs del(3) by (simp add: successes_def)
  qed
qed

lemma delete_each_invalid:
  "delete_each d fs xs = (rs, fs') \<Longrightarrow>
     invalid_names (map fst rs) = length (filter (\<lambda>n. \<not> safe_name n) xs)"
proof (induction xs arbitrary: fs rs fs')
  case Nil
  then show ?case by (simp add: invalid_names_def)
next
  case (Cons x xs)
  obtain r fs1 c where one: "delete_one d fs x = (r, fs1, c)"
    by (cases "delete_one d fs x") auto
  obtain rs1 where rest: "delete_each d fs1 xs = (rs1, fs')" and rs: "rs = (r, c) # rs1"
    using Cons.prems(1) one by (auto split: prod.splits)
  have r: "(status r = ''error'' \<and> message r = Some ''Invalid filename'') = (\<not> safe_name x)"
    using one
    by (auto simp: delete_one_def Let_def message_of_def
        split: if_splits sum.splits errno.splits)
  show ?case using Cons.IH [OF rest] rs r by (simp add: invalid_names_def)
qed

lemma delete_each_partition:
  assumes "delete_each d fs xs = (rs, fs')"
    and "\<forall>n\<in>set xs. safe_name n \<longrightarrow> \<not> names_dir d fs n"
  shows "successes (map fst rs) + invalid_names (map fst rs) + not_founds (map fst rs)
     = length xs"
  using assms
proof (induction xs arbitrary: fs rs fs')
  case Nil
  then show ?case by (simp add: successes_def invalid_names_def not_founds_def)
next
  case (Cons x xs)
  obtain r fs1 c where one: "delete_one d fs x = (r, fs1, c)"
    by (cases "delete_one d fs x") auto
  obtain rs1 where rest: "delete_each d fs1 xs = (rs1, fs')" and rs: "rs = (r, c) # rs1"
    using Cons.prems(1) one by (auto split: prod.splits)
  have nodir: "\<not> (safe_name x \<and> names_dir d fs x)" using Cons.prems(2) by simp
  have nd: "\<forall>n\<in>set xs. safe_name n \<longrightarrow> \<not> names_dir d fs1 n"
    using Cons.prems(2) delete_one_cases [OF one] by (auto dest: names_dir_remove)
  have ih: "successes (map fst rs1) + invalid_names (map fst rs1) + not_founds (map fst rs1)
     = length xs"
    using Cons.IH [OF rest nd] .
  from delete_one_cases [OF one] nodir
  have "r = Detail x ''error'' (Some ''Invalid filename'') \<or> r = Detail x ''success'' None
     \<or> r = Detail x ''error'' (Some ''File not found'')"
    by blast
  then show ?case using ih rs
    by (auto simp: successes_def invalid_names_def not_founds_def)
qed

lemma delete_image_calls:
  "snd (snd (delete_image d fs n)) = [Unlink (path_join (uploadDir d) n)]"
  by (simp add: delete_image_def Let_def split: sum.splits)

text \<open>
  C1, as amended: in the batch form (\<^verbatim>\<open>POST /delete\<close>) an entry whose name does not match
  the safe pattern gets the outcome invalid-name, and no call to the filesystem is made
  for it: the name is tested before a path is built. Every entry has its outcome. The
  single-item form (\<^verbatim>\<open>DELETE /image/:filename\<close>) tests no name: it hands every name to
  \<^verbatim>\<open>path.join\<close> and \<^verbatim>\<open>fs.unlink\<close>.
\<close>

theorem batch_invalid_name:
  assumes "post_delete dirname fs (Some images) = (resp, fs', log)"
    and "i < length images" and "\<not> safe_name (images ! i)"
  shows "details resp ! i = Detail (images ! i) ''error'' (Some ''Invalid filename'')
     \<and> log ! i = [] \<and> length (details resp) = length images \<and> length log = length images
     \<and> snd (snd (delete_image dirname fs (images ! i)))
         = [Unlink (path_join (uploadDir dirname) (images ! i))]"
proof -
  obtain rs fs1 where each: "delete_each dirname fs images = (rs, fs1)"
    by (cases "delete_each dirname fs images") auto
  have len: "length rs = length images" using each by (rule delete_each_length)
  have ne: "length images \<noteq> 0" using assms(2) by auto
  have d: "details resp = map fst rs" and l: "log = map snd rs"
    using assms(1) each ne by (auto simp: post_delete_def Let_def split: if_splits)
  have "rs ! i = (Detail (images ! i) ''error'' (Some ''Invalid filename''), [])"
    using each assms(2,3) by (rule delete_each_unsafe)
  then show ?thesis using d l len assms(2) by (simp add: delete_image_calls)
qed

text \<open>A request with one stored file and one name that leaves the directory.\<close>

theorem batch_invalid_name_witness:
  "post_delete [''app''] [([''app'', ''public'', ''uploads''], Dir 1),
        ([''app'', ''public'', ''uploads'', ''a.png''], File 2 ''GIF89a'')]
      (Some [''a.png'', ''../server.js''])
    = (Deleted 1 2 [Detail ''a.png'' ''success'' None,
          Detail ''../server.js'' ''error'' (Some ''Invalid filename'')],
       [([''app'', ''public'', ''uploads''], Dir 1)],
       [[ExistsSync ([''app'', ''public'', ''uploads'', ''a.png''], False),
         UnlinkSync ([''app'', ''public'', ''uploads'', ''a.png''], False)], []])
   \<and> (1::nat) < length [''a.png'', ''../server.js'']
   \<and> \<not> safe_name ([''a.png'', ''../server.js''] ! 1)
   \<and> details (Deleted 1 2 [Detail ''a.png'' ''success'' None,
          Detail ''../server.js'' ''error'' (Some ''Invalid filename'')]) ! 1
       = Detail ''../server.js'' ''error'' (Some ''Invalid filename'')"
proof -
  have e: "post_delete [''app''] [([''app'', ''public'', ''uploads''], Dir 1),
        ([''app'', ''public'', ''uploads'', ''a.png''], File 2 ''GIF89a'')]
      (Some [''a.png'', ''../server.js''])
    = (Deleted 1 2 [Detail ''a.png'' ''success'' None,
          Detail ''../server.js'' ''error'' (Some ''Invalid filename'')],
       [([''app'', ''public'', ''uploads''], Dir 1)],
       [[ExistsSync ([''app'', ''public'', ''uploads'', ''a.png''], False),
         UnlinkSync ([''app'', ''public'', ''uploads'', ''a.png''], False)], []])"
    by code_simp
  have i: "(1::nat) < length [''a.png'', ''../server.js'']" by simp
  have u: "\<not> safe_name ([''a.png'', ''../server.js''] ! 1)" by code_simp
  show ?thesis using batch_invalid_name [OF e i u] e i u by simp
qed

text \<open>
  C1 as stated fails for the single-item form: a name with a space does not match the
  safe pattern, yet the handler unlinks the file and reports success.
\<close>

theorem single_delete_unvalidated:
  "\<not> safe_name ''a b.png''
   \<and> delete_image [''app''] [([''app'', ''public'', ''uploads''], Dir 1),
        ([''app'', ''public'', ''uploads'', ''a b.png''], File 2 ''GIF89a'')] ''a b.png''
     = (SuccessTrue, [([''app'', ''public'', ''uploads''], Dir 1)],
        [Unlink ([''app'', ''public'', ''uploads'', ''a b.png''], False)])"
  by code_simp

text \<open>The same handler follows \<^verbatim>\<open>..\<close> out of the upload directory.\<close>

lemma single_delete_traversal:
  "delete_image [''app''] [([''app'', ''server.js''], File 1 ''code''),
        ([''app'', ''public'', ''uploads''], Dir 1)] ''../../server.js''
     = (SuccessTrue, [([''app'', ''public'', ''uploads''], Dir 1)],
        [Unlink ([''app'', ''server.js''], False)])"
  by code_simp

text \<open>
  C2, as amended: for a non-empty batch of \<open>N\<close> names, of which \<open>K\<close> distinct well-formed
  names are stored files, \<open>M\<close> entries are malformed and no well-formed entry names a
  directory, every entry gets one outcome: \<open>K\<close> successes, \<open>M\<close> invalid-name entries and
  \<open>N - K - M\<close> not-found entries (a repeated name is found once). The response is the
  success response with status 200 when \<open>K \<ge> 1\<close> and the failure response with status 400
  and the same details when \<open>K = 0\<close>. An empty batch is answered with status 400 and no
  details.
\<close>

theorem batch_delete_counts:
  assumes "post_delete dirname fs (Some images) = (resp, fs', log)"
    and "images \<noteq> []"
    and "\<forall>n\<in>set images. safe_name n \<longrightarrow> \<not> names_dir dirname fs n"
  shows "length (details resp) = length images
    \<and> successes (details resp) = card {n \<in> set images. safe_name n \<and> names_file dirname fs n}
    \<and> invalid_names (details resp) = length (filter (\<lambda>n. \<not> safe_name n) images)
    \<and> not_founds (details resp)
        = length images - successes (details resp) - invalid_names (details resp)
    \<and> resp = (if 1 \<le> successes (details resp)
          then Deleted (successes (details resp)) (length images) (details resp)
          else NoFilesDeleted (details resp))
    \<and> delete_status resp = (if 1 \<le> successes (details resp) then 200 else 400)
    \<and> post_delete dirname fs (Some []) = (NoImagesSelected, fs, [])"
proof -
  obtain rs fs1 where each: "delete_each dirname fs images = (rs, fs1)"
    by (cases "delete_each dirname fs images") auto
  have len: "length rs = length images" using each by (rule delete_each_length)
  have ne: "length images \<noteq> 0" using assms(2) by simp
  have resp: "resp = (if successes (map fst rs) = 0 then NoFilesDeleted (map fst rs)
      else Deleted (successes (map fst rs)) (length images) (map fst rs))"
    using assms(1) each ne
    by (auto simp: post_delete_def Let_def successes_def [symmetric] simp del: filter_map
        split: if_splits)
  then have d: "details resp = map fst rs" by (simp split: if_splits)
  have s: "successes (map fst rs) = card {n \<in> set images. safe_name n \<and> names_file dirname fs n}"
    using each assms(3) by (rule delete_each_successes)
  have m: "invalid_names (map fst rs) = length (filter (\<lambda>n. \<not> safe_name n) images)"
    using each by (rule delete_each_invalid)
  have p: "successes (map fst rs) + invalid_names (map fst rs) + not_founds (map fst rs)
     = length images"
    using each assms(3) by (rule delete_each_partition)
  have n: "not_founds (map fst rs)
     = length images - successes (map fst rs) - invalid_names (map fst rs)"
    using p by arith
  have st: "delete_status resp = (if 1 \<le> successes (map fst rs) then 200 else 400)"
    using resp by (simp split: if_splits)
  have em: "post_delete dirname fs (Some []) = (NoImagesSelected, fs, [])"
    by (simp add: post_delete_def)
  show ?thesis
    unfolding d using len s m n st resp em by (simp split: if_splits)
qed

text \<open>
  The name \<^verbatim>\<open>.\<close> matches the safe pattern and names the upload directory itself: the entry
  is neither a success nor not-found, its message is that of the failed \<^verbatim>\<open>unlink\<close>.
\<close>

lemma batch_delete_dot:
  "delete_one [''app''] [([''app'', ''public'', ''uploads''], Dir 1)] ''.''
    = (Detail ''.'' ''error''
         (Some (message_of EISDIR ''unlink'' ([''app'', ''public'', ''uploads''], False))),
       [([''app'', ''public'', ''uploads''], Dir 1)],
       [ExistsSync ([''app'', ''public'', ''uploads''], False),
        UnlinkSync ([''app'', ''public'', ''uploads''], False)])
   \<and> safe_name ''.'' \<and> names_dir [''app''] [([''app'', ''public'', ''uploads''], Dir 1)] ''.''"
  by code_simp

text \<open>Four entries: a stored file, a malformed name, an absent file, the stored file again.\<close>

theorem batch_delete_counts_witness:
  "post_delete [''app''] [([''app'', ''public'', ''uploads''], Dir 1),
        ([''app'', ''public'', ''uploads'', ''a.png''], File 2 ''GIF89a''),
        ([''app'', ''public'', ''uploads'', ''b.png''], File 3 ''GIF89a'')]
      (Some [''a.png'', ''../x'', ''zz.png'', ''a.png''])
    = (Deleted 1 4 [Detail ''a.png'' ''success'' None,
          Detail ''../x'' ''error'' (Some ''Invalid filename''),
          Detail ''zz.png'' ''error'' (Some ''File not found''),
          Detail ''a.png'' ''error'' (Some ''File not found'')],
       [([''app'', ''public'', ''uploads''], Dir 1),
        ([''app'', ''public'', ''uploads'', ''b.png''], File 3 ''GIF89a'')],
       [[ExistsSync ([''app'', ''public'', ''uploads'', ''a.png''], False),
         UnlinkSync ([''app'', ''public'', ''uploads'', ''a.png''], False)], [],
        [ExistsSync ([''app'', ''public'', ''uploads'', ''zz.png''], False)],
        [ExistsSync ([''app'', ''public'', ''uploads'', ''a.png''], False)]])
   \<and> successes [Detail ''a.png'' ''success'' None,
          Detail ''../x'' ''error'' (Some ''Invalid filename''),
          Detail ''zz.png'' ''error'' (Some ''File not found''),
          Detail ''a.png'' ''error'' (Some ''File not found'')] = 1
   \<and> invalid_names [Detail ''a.png'' ''success'' None,
          Detail ''../x'' ''error'' (Some ''Invalid filename''),
          Detail ''zz.png'' ''error'' (Some ''File not found''),
          Detail ''a.png'' ''error'' (Some ''File not found'')] = 1
   \<and> not_founds [Detail ''a.png'' ''success'' None,
          Detail ''../x'' ''error'' (Some ''Invalid filename''),
          Detail ''zz.png'' ''error'' (Some ''File not found''),
          Detail ''a.png'' ''error'' (Some ''File not found'')] = 2"
proof -
  let ?fs = "[([''app'', ''public'', ''uploads''], Dir 1),
        ([''app'', ''public'', ''uploads'', ''a.png''], File 2 ''GIF89a''),
        ([''app'', ''public'', ''uploads'', ''b.png''], File 3 ''GIF89a'')]"
  let ?imgs = "[''a.png'', ''../x'', ''zz.png'', ''a.png'']"
  let ?ds = "[Detail ''a.png'' ''success'' None,
          Detail ''../x'' ''error'' (Some ''Invalid filename''),
          Detail ''zz.png'' ''error'' (Some ''File not found''),
          Detail ''a.png'' ''error'' (Some ''File not found'')]"
  have e: "post_delete [''app''] ?fs (Some ?imgs)
    = (Deleted 1 4 ?ds,
       [([''app'', ''public'', ''uploads''], Dir 1),
        ([''app'', ''public'', ''uploads'', ''b.png''], File 3 ''GIF89a'')],
       [[ExistsSync ([''app'', ''public'', ''uploads'', ''a.png''], False),
         UnlinkSync ([''app'', ''public'', ''uploads'', ''a.png''], False)], [],
        [ExistsSync ([''app'', ''public'', ''uploads'', ''zz.png''], False)],
        [ExistsSync ([''app'', ''public'', ''uploads'', ''a.png''], False)]])"
    by code_simp
  have ne: "?imgs \<noteq> []" by simp
  have nd: "\<forall>n\<in>set ?imgs. safe_name n \<longrightarrow> \<not> names_dir [''app''] ?fs n"
    by code_simp
  have k: "card {n \<in> set ?imgs. safe_name n \<and> names_file [''app''] ?fs n} = 1"
    by code_simp
  have m: "length (filter (\<lambda>n. \<not> safe_name n) ?imgs) = 1"
    by code_simp
  have d: "details (Deleted 1 4 ?ds) = ?ds" by simp
  note t = batch_delete_counts [OF e ne nd, unfolded d k m]
  have s: "successes ?ds = 1" using t by (elim conjE)
  have i: "invalid_names ?ds = 1" using t by (elim conjE)
  have n: "not_founds ?ds = 2" using t by (elim conjE) simp
  show ?thesis using e s i n by (intro conjI)
qed

text \<open>
  C2 as stated fails when a stored file is named twice: both entries name an existing
  file, one succeeds and the other is reported as not found. An empty batch is answered
  without any details.
\<close>

theorem batch_delete_duplicate_and_empty:
  "fst (post_delete [''app''] [([''app'', ''public'', ''uploads''], Dir 1),
        ([''app'', ''public'', ''uploads'', ''a.png''], File 2 ''GIF89a'')]
      (Some [''a.png'', ''a.png'']))
    = Deleted 1 2 [Detail ''a.png'' ''success'' None,
          Detail ''a.png'' ''error'' (Some ''File not found'')]
   \<and> length (filter (\<lambda>n. safe_name n \<and> names_file [''app'']
        [([''app'', ''public'', ''uploads''], Dir 1),
         ([''app'', ''public'', ''uploads'', ''a.png''], File 2 ''GIF89a'')] n)
        [''a.png'', ''a.png'']) = 2
   \<and> fst (post_delete [''app''] [([''app'', ''public'', ''uploads''], Dir 1)] (Some []))
    = NoImagesSelected"
  by code_simp




section \<open>Properties of the upload type filter\<close>

lemma extname_pic_png: "extname ''pic.png'' = ''.png''"
  by (simp add: extname_def basename_def)

text \<open>
  C10: the type filter accepts a file whose declared MIME type is outside the allowed
  image MIME set: the pattern is matched anywhere in the declared MIME type and in the
  extension, so the declared type \<^verbatim>\<open>application/x-png-fake\<close> with the extension
  \<^verbatim>\<open>.png\<close> passes, in variant A and in variant B.
\<close>

theorem fileFilter_accepts_fake_png:
  "fileFilter_A \<lparr>fieldname = ''image'', originalname = ''pic.png'',
       mimetype = ''application/x-png-fake'', data = d\<rparr>
   \<and> fileFilter_B \<lparr>fieldname = ''image'', originalname = ''pic.png'',
       mimetype = ''application/x-png-fake'', data = d\<rparr>
   \<and> extname ''pic.png'' = ''.png''
   \<and> ''application/x-png-fake'' \<notin> set allowedTypes"
  by (simp add: fileFilter_A_def fileFilter_B_def filetypes_test_A_def filetypes_test_B_def
      extname_pic_png fold_char_def toLowerCase_def lower_char_def is_upper_def allowedTypes_def)

section \<open>Properties of upload\<close>

lemma lookup_store: "lookup (store fs p n) q = (if q = p then Some n else lookup fs q)"
proof (cases "lookup fs p")
  case None
  then show ?thesis
    by (auto simp: store_def lookup_def map_add_def simp del: map_of_eq_None_iff
        split: option.splits)
next
  case (Some a)
  have "map_of (map (\<lambda>e. if fst e = p then (p, n) else e) fs) q
      = (if q = p then (case map_of fs p of None \<Rightarrow> None | Some x \<Rightarrow> Some n) else map_of fs q)"
    by (induction fs) auto
  then show ?thesis using Some by (simp add: store_def lookup_def)
qed

text \<open>
  With at most one file part allowed, \<^verbatim>\<open>upload.single('image')\<close> ends in one of four
  ways: an error with the filesystem as it was, an error after the file it wrote has been
  removed again, no file, or the one file part stored under its generated name.
\<close>

lemma multer_single_cases:
  assumes "files opts = Some 1"
  shows "(\<exists>e. multer_single opts dest fs req = (Inl e, fs))
    \<or> (\<exists>e p n. multer_single opts dest fs req = (Inl e, remove (store fs p n) p))
    \<or> multer_single opts dest fs req = (Inr None, fs)
    \<or> (\<exists>file. passes opts req file
         \<and> snd (path_join dest (storage_filename opts (now req) (random req) file)) = False
         \<and> multer_single opts dest fs req =
            (Inr (Some \<lparr>stored_filename = storage_filename opts (now req) (random req) file,
                stored_size = length (data file), stored_mimetype = mimetype file,
                stored_path = path_join dest (storage_filename opts (now req) (random req) file)\<rparr>),
             store fs (fst (path_join dest (storage_filename opts (now req) (random req) file)))
               (File (int (now req)) (data file))))"
proof (cases "parts req")
  case Nil
  then show ?thesis by (simp add: multer_single_def)
next
  case (Cons f rest)
  note outer = Cons
  have tk: "\<not> over_limit (fileSize opts) (length (data f)) \<Longrightarrow>
      (case fileSize opts of None \<Rightarrow> data f | Some l \<Rightarrow> take l (data f)) = data f"
    by (auto simp: over_limit_def split: option.splits)
  show ?thesis
  proof (cases rest)
    case Nil
    show ?thesis
      using assms outer Nil tk
      by (auto simp: multer_single_def reached_limit_def abortWithError_def Let_def writeFile_def
          passes_def
          split: sum.splits option.splits node.splits if_splits)
  next
    case (Cons f2 rest2)
    show ?thesis
      using assms outer Cons
      by (auto simp: multer_single_def reached_limit_def abortWithError_def Let_def writeFile_def
          passes_def
          split: sum.splits option.splits node.splits if_splits)
  qed
qed

lemma validateImage_stored:
  assumes "snd fp = False"
  shows "validateImage fromBuffer (store fs (fst fp) (File t b)) fp =
     (case fromBuffer b of
        Undefined \<Rightarrow> (Inl ''Invalid image content'', remove (store fs (fst fp) (File t b)) (fst fp))
      | Promise \<Rightarrow> (Inl type_error_message, store fs (fst fp) (File t b))
      | Type ty \<Rightarrow>
          (if \<not> starts_with ''image/'' (mime ty)
           then (Inl ''Invalid image content'', remove (store fs (fst fp) (File t b)) (fst fp))
           else (Inr True, store fs (fst fp) (File t b))))"
  using assms
  by (simp add: validateImage_def readFileSync_def unlinkSync_def lookup_store Let_def
      split: sniffed.splits)

text \<open>
  The ways \<^verbatim>\<open>POST /upload\<close> of variant A ends: without a file written; with an error of
  \<^verbatim>\<open>multer\<close> after the written file has been removed; with the file refused by the sniff
  and removed; with the \<^verbatim>\<open>TypeError\<close> of a sniffer that answers with a promise, the file
  still there; or with the file accepted.
\<close>

lemma post_upload_A_cases:
  assumes "post_upload_A fromBuffer dirname limited fs req = (resp, fs')"
  shows "(\<not> is_Uploaded resp \<and> (\<forall>msg. resp \<noteq> Rejected msg) \<and> fs' = fs)
    \<or> (\<exists>e p n. resp = UploadError e \<and> fs' = remove (store fs p n) p)
    \<or> (\<exists>file. passes upload_A req file
        \<and> snd (path_join (uploadDir dirname) (filename_AB (now req) (random req) file)) = False
        \<and> (fromBuffer (data file) = Undefined
            \<or> (\<exists>ty. fromBuffer (data file) = Type ty \<and> \<not> starts_with ''image/'' (mime ty)))
        \<and> resp = Rejected ''Invalid image content''
        \<and> fs' = remove (store fs (fst (path_join (uploadDir dirname) (filename_AB (now req) (random req) file))) (File (int (now req)) (data file)))
              (fst (path_join (uploadDir dirname) (filename_AB (now req) (random req) file))))
    \<or> (\<exists>file. passes upload_A req file
        \<and> snd (path_join (uploadDir dirname) (filename_AB (now req) (random req) file)) = False
        \<and> fromBuffer (data file) = Promise
        \<and> resp = Rejected type_error_message
        \<and> fs' = store fs (fst (path_join (uploadDir dirname) (filename_AB (now req) (random req) file))) (File (int (now req)) (data file)))
    \<or> (\<exists>file ty. passes upload_A req file
        \<and> snd (path_join (uploadDir dirname) (filename_AB (now req) (random req) file)) = False
        \<and> fromBuffer (data file) = Type ty \<and> starts_with ''image/'' (mime ty)
        \<and> resp = Uploaded (Some (filename_AB (now req) (random req) file)) None (''/uploads/'' @ filename_AB (now req) (random req) file) None
        \<and> fs' = store fs (fst (path_join (uploadDir dirname) (filename_AB (now req) (random req) file))) (File (int (now req)) (data file)))"
proof (cases limited)
  case True
  then show ?thesis using assms by (auto simp: post_upload_A_def)
next
  case False
  have f1: "files upload_A = Some 1" by (simp add: upload_A_def)
  have sf: "storage_filename upload_A = filename_AB" by (simp add: upload_A_def)
  from multer_single_cases [OF f1, of "uploadDir dirname" fs req]
  consider (err) e where "multer_single upload_A (uploadDir dirname) fs req = (Inl e, fs)"
    | (errw) e p n where
        "multer_single upload_A (uploadDir dirname) fs req = (Inl e, remove (store fs p n) p)"
    | (none) "multer_single upload_A (uploadDir dirname) fs req = (Inr None, fs)"
    | (some) f where "passes upload_A req f"
        "snd (path_join (uploadDir dirname) (filename_AB (now req) (random req) f)) = False"
        "multer_single upload_A (uploadDir dirname) fs req =
            (Inr (Some \<lparr>stored_filename = filename_AB (now req) (random req) f,
                stored_size = length (data f), stored_mimetype = mimetype f,
                stored_path = path_join (uploadDir dirname)
                  (filename_AB (now req) (random req) f)\<rparr>),
             store fs (fst (path_join (uploadDir dirname) (filename_AB (now req) (random req) f)))
               (File (int (now req)) (data f)))"
    unfolding sf by blast
  then show ?thesis
  proof cases
    case err
    then show ?thesis using assms False by (auto simp: post_upload_A_def)
  next
    case errw
    then show ?thesis using assms False by (auto simp: post_upload_A_def)
  next
    case none
    then show ?thesis using assms False by (auto simp: post_upload_A_def)
  next
    case some
    let ?n = "filename_AB (now req) (random req) f"
    let ?fp = "path_join (uploadDir dirname) ?n"
    let ?fs1 = "store fs (fst ?fp) (File (int (now req)) (data f))"
    have r: "(resp, fs') =
       (case validateImage fromBuffer ?fs1 ?fp of
          (Inl msg, fs2) \<Rightarrow> (Rejected msg, fs2)
        | (Inr ok, fs2) \<Rightarrow> (Uploaded (Some ?n) None (''/uploads/'' @ ?n) None, fs2))"
      using assms False some(3) by (auto simp: post_upload_A_def split: prod.splits sum.splits)
    show ?thesis
    proof (cases "fromBuffer (data f)")
      case Undefined
      then have "resp = Rejected ''Invalid image content'' \<and> fs' = remove ?fs1 (fst ?fp)"
        using r by (simp add: validateImage_stored [OF some(2)])
      then show ?thesis using some(1,2) Undefined by blast
    next
      case Promise
      then have "resp = Rejected type_error_message \<and> fs' = ?fs1"
        using r by (simp add: validateImage_stored [OF some(2)])
      then show ?thesis using some(1,2) Promise by blast
    next
      case (Type ty)
      show ?thesis
      proof (cases "starts_with ''image/'' (mime ty)")
        case True
        then have "resp = Uploaded (Some ?n) None (''/uploads/'' @ ?n) None \<and> fs' = ?fs1"
          using r Type by (simp add: validateImage_stored [OF some(2)])
        then show ?thesis using some(1,2) Type True by blast
      next
        case False
        then have "resp = Rejected ''Invalid image content'' \<and> fs' = remove ?fs1 (fst ?fp)"
          using r Type by (simp add: validateImage_stored [OF some(2)])
        then show ?thesis using some(1,2) Type False by blast
      qed
    qed
  qed
qed

lemma post_upload_B_cases:
  assumes "post_upload_B dirname limited fs req = (resp, fs')"
  shows "(\<not> is_Uploaded resp \<and> (\<forall>msg. resp \<noteq> Rejected msg) \<and> fs' = fs)
    \<or> (\<exists>e p n. resp = UploadError e \<and> fs' = remove (store fs p n) p)
    \<or> (\<exists>file. passes upload_B req file
        \<and> snd (path_join (uploadDir dirname) (filename_AB (now req) (random req) file)) = False
        \<and> resp = Uploaded (Some (filename_AB (now req) (random req) file)) (Some (length (data file)))
              (''/uploads/'' @ filename_AB (now req) (random req) file) (Some (mimetype file))
        \<and> fs' = store fs (fst (path_join (uploadDir dirname) (filename_AB (now req) (random req) file))) (File (int (now req)) (data file)))"
proof (cases limited)
  case True
  then show ?thesis using assms by (auto simp: post_upload_B_def)
next
  case False
  have f1: "files upload_B = Some 1" by (simp add: upload_B_def)
  have sf: "storage_filename upload_B = filename_AB" by (simp add: upload_B_def)
  from multer_single_cases [OF f1, of "uploadDir dirname" fs req]
  consider (err) e where "multer_single upload_B (uploadDir dirname) fs req = (Inl e, fs)"
    | (errw) e p n where
        "multer_single upload_B (uploadDir dirname) fs req = (Inl e, remove (store fs p n) p)"
    | (none) "multer_single upload_B (uploadDir dirname) fs req = (Inr None, fs)"
    | (some) f where "passes upload_B req f"
        "snd (path_join (uploadDir dirname) (filename_AB (now req) (random req) f)) = False"
        "multer_single upload_B (uploadDir dirname) fs req =
            (Inr (Some \<lparr>stored_filename = filename_AB (now req) (random req) f,
                stored_size = length (data f), stored_mimetype = mimetype f,
                stored_path = path_join (uploadDir dirname)
                  (filename_AB (now req) (random req) f)\<rparr>),
             store fs (fst (path_join (uploadDir dirname) (filename_AB (now req) (random req) f)))
               (File (int (now req)) (data f)))"
    unfolding sf by blast
  then show ?thesis
  proof cases
    case err
    then show ?thesis using assms False by (auto simp: post_upload_B_def)
  next
    case errw
    then show ?thesis using assms False by (auto simp: post_upload_B_def)
  next
    case none
    then show ?thesis using assms False by (auto simp: post_upload_B_def)
  next
    case some
    let ?n = "filename_AB (now req) (random req) f"
    have "resp = Uploaded (Some ?n) (Some (length (data f))) (''/uploads/'' @ ?n)
            (Some (mimetype f)) \<and>
          fs' = store fs (fst (path_join (uploadDir dirname) ?n)) (File (int (now req)) (data f))"
      using assms False some(3) by (simp add: post_upload_B_def Let_def)
    then show ?thesis using some(1,2) by blast
  qed
qed

lemma map_le_remove_store: "map_of (remove (store fs p n) p) \<subseteq>\<^sub>m map_of fs"
proof -
  have "lookup (remove (store fs p n) p) q = Some m \<Longrightarrow> lookup fs q = Some m" for q m
    by (simp add: lookup_remove lookup_store split: if_splits)
  then show ?thesis
    by (auto simp: map_le_def lookup_def dom_def)
qed

lemma lookup_foldl_remove:
  "lookup (foldl (\<lambda>s f. remove s (fst (stored_path f))) fs up) q
     = (if q \<in> fst ` stored_path ` set up then None else lookup fs q)"
  by (induction up arbitrary: fs) (auto simp: lookup_remove)

lemma abortWithError_le:
  assumes "\<forall>q. q \<notin> fst ` stored_path ` set up \<longrightarrow> lookup fs q = lookup fs0 q"
  shows "map_of (snd (abortWithError fs up e)) \<subseteq>\<^sub>m map_of fs0"
proof -
  have "lookup (snd (abortWithError fs up e)) q = Some m \<Longrightarrow> lookup fs0 q = Some m" for q m
    using assms by (auto simp: abortWithError_def lookup_foldl_remove split: if_splits)
  then show ?thesis by (auto simp: map_le_def lookup_def dom_def)
qed

lemma abortWithError_Inl: "fst (abortWithError fs up e) = Inl e"
  by (simp add: abortWithError_def)

lemma multer_parts_rejected:
  assumes "multer_parts opts dest t rnd fs nfiles left up ps = (r, fs')"
    and "\<forall>q. q \<notin> fst ` stored_path ` set up \<longrightarrow> lookup fs q = lookup fs0 q"
  shows "(\<forall>f. r \<noteq> Inr (Some f)) \<longrightarrow> map_of fs' \<subseteq>\<^sub>m map_of fs0 \<and> (r = Inr None \<longrightarrow> up = [])"
  using assms
proof (induction opts dest t rnd fs nfiles left up ps arbitrary: r fs' rule: multer_parts.induct)
  case (1 opts dest t rnd fs nfiles filesLeft uploadedFiles)
  then show ?case
    by (auto simp: map_le_def lookup_def dom_def split: list.splits)
next
  case (2 opts dest t rnd fs nfiles filesLeft uploadedFiles p rest)
  let ?name = "storage_filename opts t rnd p"
  let ?fp = "path_join dest ?name"
  let ?written = "case fileSize opts of None \<Rightarrow> data p | Some l \<Rightarrow> take l (data p)"
  let ?info = "\<lparr>stored_filename = ?name, stored_size = length ?written,
      stored_mimetype = mimetype p, stored_path = ?fp\<rparr>"
  have ab: "(r, fs') = abortWithError fsx upx e \<Longrightarrow>
      \<forall>q. q \<notin> fst ` stored_path ` set upx \<longrightarrow> lookup fsx q = lookup fs0 q \<Longrightarrow>
      map_of fs' \<subseteq>\<^sub>m map_of fs0 \<and> r \<noteq> Inr None" for fsx upx e
    using abortWithError_le [of upx fsx fs0 e] abortWithError_Inl [of fsx upx e]
    by (metis fst_conv snd_conv sum.distinct(1))
  show ?case
  proof (cases "reached_limit (files opts) nfiles")
    case True
    then have "(r, fs') = abortWithError fs uploadedFiles LIMIT_FILE_COUNT"
      using "2.prems"(1) by simp
    from ab [OF this "2.prems"(2)] show ?thesis by simp
  next
    case lim: False
    show ?thesis
    proof (cases "originalname p = []")
      case True
      then have "multer_parts opts dest t rnd fs (Suc nfiles) filesLeft uploadedFiles rest = (r, fs')"
        using "2.prems"(1) lim by simp
      from "2.IH"(1) [OF lim True this "2.prems"(2)] show ?thesis .
    next
      case named: False
      show ?thesis
      proof (cases "fieldname p \<noteq> ''image'' \<or> filesLeft = 0")
        case True
        then have "(r, fs') = abortWithError fs uploadedFiles LIMIT_UNEXPECTED_FILE"
          using "2.prems"(1) lim named by auto
        from ab [OF this "2.prems"(2)] show ?thesis by simp
      next
        case field: False
        show ?thesis
        proof (cases "fileFilter opts p")
          case False
          then have "(r, fs') = abortWithError fs uploadedFiles FILTER_ERROR"
            using "2.prems"(1) lim named field by auto
          from ab [OF this "2.prems"(2)] show ?thesis by simp
        next
          case filt: True
          show ?thesis
          proof (cases "writeFile fs ?fp (int t) ?written")
            case (Inl e)
            then have "(r, fs') = abortWithError fs uploadedFiles (STORAGE_ERROR e)"
              using "2.prems"(1) lim named field filt by (auto simp: Let_def)
            from ab [OF this "2.prems"(2)] show ?thesis by simp
          next
            case (Inr fs1)
            then have fs1: "fs1 = store fs (fst ?fp) (File (int t) ?written)"
              by (auto simp: writeFile_def split: if_splits option.splits node.splits)
            have inv1: "\<forall>q. q \<notin> fst ` stored_path ` set (?info # uploadedFiles)
                \<longrightarrow> lookup fs1 q = lookup fs0 q"
              using "2.prems"(2) fs1 by (auto simp: lookup_store)
            show ?thesis
            proof (cases "over_limit (fileSize opts) (length (data p))")
              case True
              then have "(r, fs') = abortWithError fs1 (?info # uploadedFiles) LIMIT_FILE_SIZE"
                using "2.prems"(1) lim named field filt Inr by (auto simp: Let_def)
              from ab [OF this inv1] show ?thesis by simp
            next
              case False
              then have rec: "multer_parts opts dest t rnd fs1 (Suc nfiles) (filesLeft - 1)
                  (?info # uploadedFiles) rest = (r, fs')"
                using "2.prems"(1) lim named field filt Inr by (auto simp: Let_def)
              from "2.IH"(2) [OF lim named field _ refl refl refl Inr refl False rec inv1] filt
              show ?thesis by simp
            qed
          qed
        qed
      qed
    qed
  qed
qed

text \<open>
  An upload that is not accepted leaves no file behind, in all three variants: every
  file of the Store afterwards was there before, with the same content. For variant A
  this leaves out the one answer that a sniffer with a promise causes. When the content
  sniff of variant A refuses the file, the file written for the upload is gone when the
  response is produced.
\<close>

lemma rejected_upload_removed:
  "(post_upload_A fromBuffer dirname limited fs req = (resp, fs') \<longrightarrow> \<not> is_Uploaded resp \<longrightarrow>
      resp \<noteq> Rejected type_error_message \<longrightarrow>
      map_of fs' \<subseteq>\<^sub>m map_of fs
      \<and> (\<forall>msg. resp = Rejected msg \<longrightarrow> msg = ''Invalid image content''
          \<and> (\<exists>file. parts req = [file] \<and> lookup fs' (fst (path_join (uploadDir dirname)
                (filename_AB (now req) (random req) file))) = None)))
   \<and> (post_upload_B dirnameB limitedB fsB reqB = (respB, fsB') \<longrightarrow> \<not> is_Uploaded respB \<longrightarrow>
      map_of fsB' \<subseteq>\<^sub>m map_of fsB)
   \<and> (post_upload_C dirnameC fsC reqC = (respC, fsC') \<longrightarrow> \<not> is_Uploaded respC \<longrightarrow>
      map_of fsC' \<subseteq>\<^sub>m map_of fsC)"
proof -
  have A: "map_of fs' \<subseteq>\<^sub>m map_of fs
      \<and> (\<forall>msg. resp = Rejected msg \<longrightarrow> msg = ''Invalid image content''
          \<and> (\<exists>file. parts req = [file] \<and> lookup fs' (fst (path_join (uploadDir dirname)
                (filename_AB (now req) (random req) file))) = None))"
    if a: "post_upload_A fromBuffer dirname limited fs req = (resp, fs')" "\<not> is_Uploaded resp"
      "resp \<noteq> Rejected type_error_message"
    using post_upload_A_cases [OF a(1)] a(2,3)
    by (elim disjE exE conjE)
      (auto simp: map_le_remove_store lookup_remove passes_def)
  have B: "map_of fsB' \<subseteq>\<^sub>m map_of fsB"
    if b: "post_upload_B dirnameB limitedB fsB reqB = (respB, fsB')" "\<not> is_Uploaded respB"
    using post_upload_B_cases [OF b(1)] b(2)
    by (elim disjE exE conjE) (auto simp: map_le_remove_store)
  have C: "map_of fsC' \<subseteq>\<^sub>m map_of fsC"
    if c: "post_upload_C dirnameC fsC reqC = (respC, fsC')" "\<not> is_Uploaded respC"
  proof -
    obtain r fs1 where m: "multer_single upload_C (uploadDir dirnameC) fsC reqC = (r, fs1)"
      by (cases "multer_single upload_C (uploadDir dirnameC) fsC reqC") auto
    have "\<forall>f. r \<noteq> Inr (Some f)" and "fsC' = fs1"
      using c m by (auto simp: post_upload_C_def split: sum.splits option.splits)
    moreover have "(\<forall>f. r \<noteq> Inr (Some f)) \<longrightarrow>
        map_of fs1 \<subseteq>\<^sub>m map_of fsC \<and> (r = Inr None \<longrightarrow> ([] :: req_file list) = [])"
      using m unfolding multer_single_def
      by (rule multer_parts_rejected) simp
    ultimately show ?thesis by simp
  qed
  show ?thesis using A B C by blast
qed

text \<open>A sniffer that always answers with a promise makes variant A refuse every upload that
  \<^verbatim>\<open>multer\<close> has stored, and keep its file.\<close>

lemma promise_keeps_every_file:
  assumes "post_upload_A (\<lambda>b. Promise) dirname limited fs req = (resp, fs')"
    and "resp \<noteq> TooManyRequests" and "resp \<noteq> NoFileUploaded" and "\<forall>e. resp \<noteq> UploadError e"
  shows "resp = Rejected type_error_message
    \<and> (\<exists>file. passes upload_A req file \<and> lookup fs' (fst (path_join (uploadDir dirname)
          (filename_AB (now req) (random req) file))) = Some (File (int (now req)) (data file)))"
  using post_upload_A_cases [OF assms(1)] assms(2,3,4)
  by (cases resp) (auto simp: lookup_store)

text \<open>Evaluation of the handlers on concrete requests.\<close>

lemma show_nat_now: "show_nat 1700000000000 = ''1700000000000''"
  by (simp add: show_nat.simps digit_char_def char_of_def bit_Suc_0_iff)

lemma show_nat_rnd: "show_nat 123456789 = ''123456789''"
  by (simp add: show_nat.simps digit_char_def char_of_def bit_Suc_0_iff)

lemmas upload_eval =
  post_upload_A_def post_upload_B_def post_upload_C_def multer_single_def upload_A_def
  upload_B_def upload_C_def reached_limit_def over_limit_def abortWithError_def writeFile_def
  fileFilter_A_def fileFilter_B_def filetypes_test_A_def filetypes_test_B_def fold_char_def
  filename_AB_def filename_C_def show_nat_now show_nat_rnd toLowerCase_def lower_char_def
  is_upper_def extname_def basename_def path_join_def uploadDir_def lookup_def store_def
  remove_def validateImage_def readFileSync_def unlinkSync_def sniff_async_def Let_def char_of_def bit_Suc_0_iff

text \<open>
  C3 fails on the code when \<^verbatim>\<open>fileType.fromBuffer\<close> answers with a promise: a GIF sent to
  variant A passes \<^verbatim>\<open>multer\<close> and is written, \<^verbatim>\<open>validateImage\<close> throws the \<^verbatim>\<open>TypeError\<close>
  before it reaches \<^verbatim>\<open>unlinkSync\<close>, the handler answers with the message of that error,
  and the file is still in the upload directory.
\<close>

theorem sniff_promise_keeps_file:
  "post_upload_A sniff_async [''app''] False [([''app'', ''public'', ''uploads''], Dir 1)]
      \<lparr>parts = [\<lparr>fieldname = ''image'', originalname = ''pic.GIF'',
          mimetype = ''image/gif'', data = ''GIF89a''\<rparr>],
        now = 1700000000000, random = 123456789\<rparr>
    = (Rejected type_error_message,
       [([''app'', ''public'', ''uploads''], Dir 1),
        ([''app'', ''public'', ''uploads'', ''1700000000000-123456789.gif''],
          File 1700000000000 ''GIF89a'')])"
  by (simp add: upload_eval)

lemma upload_A_gif:
  "post_upload_A (\<lambda>buffer. Type \<lparr>ext = ''gif'', mime = ''image/gif''\<rparr>) [''app''] False [([''app'', ''public'', ''uploads''], Dir 1)]
      \<lparr>parts = [\<lparr>fieldname = ''image'', originalname = ''pic.GIF'',
          mimetype = ''image/gif'', data = ''GIF89a''\<rparr>],
        now = 1700000000000, random = 123456789\<rparr>
    = (Uploaded (Some ''1700000000000-123456789.gif'') None
        ''/uploads/1700000000000-123456789.gif'' None,
       [([''app'', ''public'', ''uploads''], Dir 1),
        ([''app'', ''public'', ''uploads'', ''1700000000000-123456789.gif''],
          File 1700000000000 ''GIF89a'')])"
  by (simp add: upload_eval)

lemma upload_B_gif:
  "post_upload_B [''app''] False [([''app'', ''public'', ''uploads''], Dir 1)]
      \<lparr>parts = [\<lparr>fieldname = ''image'', originalname = ''pic.GIF'',
          mimetype = ''image/gif'', data = ''GIF89a''\<rparr>],
        now = 1700000000000, random = 123456789\<rparr>
    = (Uploaded (Some ''1700000000000-123456789.gif'') (Some 6)
        ''/uploads/1700000000000-123456789.gif'' (Some ''image/gif''),
       [([''app'', ''public'', ''uploads''], Dir 1),
        ([''app'', ''public'', ''uploads'', ''1700000000000-123456789.gif''],
          File 1700000000000 ''GIF89a'')])"
  by (simp add: upload_eval)

lemma upload_C_any:
  "post_upload_C [''app''] [([''app'', ''public'', ''uploads''], Dir 1)]
      \<lparr>parts = [\<lparr>fieldname = ''image'', originalname = ''pic.PNG'',
          mimetype = ''image/png'', data = d\<rparr>],
        now = 1700000000000, random = 123456789\<rparr>
    = (Uploaded None None ''/uploads/1700000000000.PNG'' None,
       [([''app'', ''public'', ''uploads''], Dir 1),
        ([''app'', ''public'', ''uploads'', ''1700000000000.PNG''],
          File 1700000000000 d)])"
  by (simp add: upload_eval)

lemma upload_A_two_parts:
  "post_upload_A sniff_async [''app''] False [([''app'', ''public'', ''uploads''], Dir 1)]
      \<lparr>parts = [\<lparr>fieldname = ''image'', originalname = ''pic.GIF'',
          mimetype = ''image/gif'', data = ''GIF89a''\<rparr>,
         \<lparr>fieldname = ''image'', originalname = ''two.GIF'',
          mimetype = ''image/gif'', data = ''GIF89a''\<rparr>],
        now = 1700000000000, random = 123456789\<rparr>
    = (UploadError LIMIT_FILE_COUNT, [([''app'', ''public'', ''uploads''], Dir 1)])"
  by (simp add: upload_eval)

lemma upload_B_too_large:
  "post_upload_B [''app''] False [([''app'', ''public'', ''uploads''], Dir 1)]
      \<lparr>parts = [\<lparr>fieldname = ''image'', originalname = ''pic.GIF'',
          mimetype = ''image/gif'', data = replicate 10485761 (CHR ''G'')\<rparr>],
        now = 1700000000000, random = 123456789\<rparr>
    = (UploadError LIMIT_FILE_SIZE, [([''app'', ''public'', ''uploads''], Dir 1)])"
  by (simp add: upload_eval)

lemma digit_char_is_digit: "d < 10 \<Longrightarrow> is_digit (digit_char d)"
  by (simp add: is_digit_def digit_char_def)

lemma show_nat_digits: "list_all is_digit (show_nat n)"
proof (induction n rule: show_nat.induct)
  case (1 n)
  show ?case
  proof (cases "n < 10")
    case True
    then show ?thesis by (subst show_nat.simps) (simp add: digit_char_is_digit)
  next
    case False
    then show ?thesis using 1 by (subst show_nat.simps) (simp add: digit_char_is_digit)
  qed
qed

lemma show_nat_nonempty: "show_nat n \<noteq> []"
  by (subst show_nat.simps) simp

lemma lower_char_not_upper: "\<not> is_upper (lower_char c)"
  by (auto simp: lower_char_def is_upper_def Let_def)

lemma toLowerCase_no_upper: "list_all (\<lambda>c. \<not> is_upper c) (toLowerCase s)"
  by (simp add: toLowerCase_def list_all_iff lower_char_not_upper)

text \<open>
  C4, as amended: in variants A and B the name of an accepted upload is the decimal
  timestamp, a hyphen, the decimal random integer, and the extension of the original name
  in lower case. The name generator of variant C joins the timestamp and the extension
  as the client sent it: no hyphen, no random integer, no lower case.
\<close>

theorem generated_filename_pattern:
  "(post_upload_A fromBuffer dirname limited fs req = (resp, fs') \<longrightarrow> is_Uploaded resp \<longrightarrow>
      (\<exists>file. parts req = [file] \<and> up_filename resp =
          Some (show_nat (now req) @ ''-'' @ show_nat (random req)
            @ toLowerCase (extname (originalname file)))))
   \<and> (post_upload_B dirnameB limitedB fsB reqB = (respB, fsB') \<longrightarrow> is_Uploaded respB \<longrightarrow>
      (\<exists>file. parts reqB = [file] \<and> up_filename respB =
          Some (show_nat (now reqB) @ ''-'' @ show_nat (random reqB)
            @ toLowerCase (extname (originalname file)))))
   \<and> list_all is_digit (show_nat n) \<and> show_nat n \<noteq> []
   \<and> list_all (\<lambda>c. \<not> is_upper c) (toLowerCase s)
   \<and> filename_C n m f = show_nat n @ extname (originalname f)"
proof -
  have A: "\<exists>file. parts req = [file] \<and> up_filename resp =
          Some (show_nat (now req) @ ''-'' @ show_nat (random req)
            @ toLowerCase (extname (originalname file)))"
    if a: "post_upload_A fromBuffer dirname limited fs req = (resp, fs')" "is_Uploaded resp"
    using post_upload_A_cases [OF a(1)] a(2)
    by (elim disjE exE conjE) (auto simp: passes_def filename_AB_def)
  have B: "\<exists>file. parts reqB = [file] \<and> up_filename respB =
          Some (show_nat (now reqB) @ ''-'' @ show_nat (random reqB)
            @ toLowerCase (extname (originalname file)))"
    if b: "post_upload_B dirnameB limitedB fsB reqB = (respB, fsB')" "is_Uploaded respB"
    using post_upload_B_cases [OF b(1)] b(2)
    by (elim disjE exE conjE) (auto simp: passes_def filename_AB_def)
  show ?thesis
    using A B show_nat_digits [of n] show_nat_nonempty [of n] toLowerCase_no_upper [of s]
    by (simp add: filename_C_def)
qed

text \<open>
  A GIF accepted by variant B, and by variant A when its sniffer answers at once with the
  type of a GIF.
\<close>

theorem generated_filename_pattern_witness:
  "post_upload_A (\<lambda>buffer. Type \<lparr>ext = ''gif'', mime = ''image/gif''\<rparr>) [''app''] False [([''app'', ''public'', ''uploads''], Dir 1)]
      \<lparr>parts = [\<lparr>fieldname = ''image'', originalname = ''pic.GIF'',
          mimetype = ''image/gif'', data = ''GIF89a''\<rparr>],
        now = 1700000000000, random = 123456789\<rparr>
    = (Uploaded (Some ''1700000000000-123456789.gif'') None
        ''/uploads/1700000000000-123456789.gif'' None,
       [([''app'', ''public'', ''uploads''], Dir 1),
        ([''app'', ''public'', ''uploads'', ''1700000000000-123456789.gif''],
          File 1700000000000 ''GIF89a'')])
   \<and> post_upload_B [''app''] False [([''app'', ''public'', ''uploads''], Dir 1)]
      \<lparr>parts = [\<lparr>fieldname = ''image'', originalname = ''pic.GIF'',
          mimetype = ''image/gif'', data = ''GIF89a''\<rparr>],
        now = 1700000000000, random = 123456789\<rparr>
    = (Uploaded (Some ''1700000000000-123456789.gif'') (Some 6)
        ''/uploads/1700000000000-123456789.gif'' (Some ''image/gif''),
       [([''app'', ''public'', ''uploads''], Dir 1),
        ([''app'', ''public'', ''uploads'', ''1700000000000-123456789.gif''],
          File 1700000000000 ''GIF89a'')])
   \<and> Some ''1700000000000-123456789.gif''
      = Some (show_nat 1700000000000 @ ''-'' @ show_nat 123456789
          @ toLowerCase (extname ''pic.GIF''))"
proof -
  note t = generated_filename_pattern [of "(\<lambda>buffer. Type \<lparr>ext = ''gif'', mime = ''image/gif''\<rparr>)" "[''app'']" False
      "[([''app'', ''public'', ''uploads''], Dir 1)]"
      "\<lparr>parts = [\<lparr>fieldname = ''image'', originalname = ''pic.GIF'',
          mimetype = ''image/gif'', data = ''GIF89a''\<rparr>],
        now = 1700000000000, random = 123456789\<rparr>"
      "Uploaded (Some ''1700000000000-123456789.gif'') None
        ''/uploads/1700000000000-123456789.gif'' None"
      "[([''app'', ''public'', ''uploads''], Dir 1),
        ([''app'', ''public'', ''uploads'', ''1700000000000-123456789.gif''],
          File 1700000000000 ''GIF89a'')]"
      "[''app'']" False "[([''app'', ''public'', ''uploads''], Dir 1)]"
      "\<lparr>parts = [\<lparr>fieldname = ''image'', originalname = ''pic.GIF'',
          mimetype = ''image/gif'', data = ''GIF89a''\<rparr>],
        now = 1700000000000, random = 123456789\<rparr>"
      "Uploaded (Some ''1700000000000-123456789.gif'') (Some 6)
        ''/uploads/1700000000000-123456789.gif'' (Some ''image/gif'')"
      "[([''app'', ''public'', ''uploads''], Dir 1),
        ([''app'', ''public'', ''uploads'', ''1700000000000-123456789.gif''],
          File 1700000000000 ''GIF89a'')]"]
  have "Some ''1700000000000-123456789.gif''
      = Some (show_nat 1700000000000 @ ''-'' @ show_nat 123456789
          @ toLowerCase (extname ''pic.GIF''))"
    using t upload_A_gif upload_B_gif by simp
  then show ?thesis using upload_A_gif upload_B_gif by (intro conjI)
qed

text \<open>
  C4 as stated fails in variant C: \<^verbatim>\<open>pic.PNG\<close> is stored as \<^verbatim>\<open>1700000000000.PNG\<close>, where the
  pattern gives \<^verbatim>\<open>1700000000000-123456789.png\<close>.
\<close>

theorem filename_C_keeps_case:
  "post_upload_C [''app''] [([''app'', ''public'', ''uploads''], Dir 1)]
      \<lparr>parts = [\<lparr>fieldname = ''image'', originalname = ''pic.PNG'',
          mimetype = ''image/png'', data = ''GIF89a''\<rparr>],
        now = 1700000000000, random = 123456789\<rparr>
    = (Uploaded None None ''/uploads/1700000000000.PNG'' None,
       [([''app'', ''public'', ''uploads''], Dir 1),
        ([''app'', ''public'', ''uploads'', ''1700000000000.PNG''],
          File 1700000000000 ''GIF89a'')])
   \<and> show_nat 1700000000000 @ ''-'' @ show_nat 123456789 @ toLowerCase (extname ''pic.PNG'')
    = ''1700000000000-123456789.png''"
  by (simp add: upload_C_any) (simp add: upload_eval)

text \<open>
  C5, as amended: variants A and B accept an upload only if the pattern of the variant
  matches both the declared MIME type and the extension of the declared filename
  (\<^verbatim>\<open>jpg\<close>, \<^verbatim>\<open>jpeg\<close>, \<^verbatim>\<open>png\<close>, \<^verbatim>\<open>gif\<close>, and \<^verbatim>\<open>webp\<close> in variant A); their filters pass a file
  exactly when both match. Variant C has no filter: every file passes.
\<close>

theorem upload_needs_both_matches:
  "(post_upload_A fromBuffer dirname limited fs req = (resp, fs') \<longrightarrow> is_Uploaded resp \<longrightarrow>
      (\<exists>file. parts req = [file] \<and> filetypes_test_A (mimetype file)
         \<and> filetypes_test_A (extname (originalname file))))
   \<and> (post_upload_B dirnameB limitedB fsB reqB = (respB, fsB') \<longrightarrow> is_Uploaded respB \<longrightarrow>
      (\<exists>file. parts reqB = [file] \<and> filetypes_test_B (mimetype file)
         \<and> filetypes_test_B (toLowerCase (extname (originalname file)))))
   \<and> fileFilter_A f = (filetypes_test_A (mimetype f)
         \<and> filetypes_test_A (extname (originalname f)))
   \<and> fileFilter_B f = (filetypes_test_B (mimetype f)
         \<and> filetypes_test_B (toLowerCase (extname (originalname f))))
   \<and> fileFilter upload_C f"
proof -
  have A: "\<exists>file. parts req = [file] \<and> filetypes_test_A (mimetype file)
         \<and> filetypes_test_A (extname (originalname file))"
    if a: "post_upload_A fromBuffer dirname limited fs req = (resp, fs')" "is_Uploaded resp"
    using post_upload_A_cases [OF a(1)] a(2)
    by (elim disjE exE conjE) (auto simp: passes_def upload_A_def fileFilter_A_def)
  have B: "\<exists>file. parts reqB = [file] \<and> filetypes_test_B (mimetype file)
         \<and> filetypes_test_B (toLowerCase (extname (originalname file)))"
    if b: "post_upload_B dirnameB limitedB fsB reqB = (respB, fsB')" "is_Uploaded respB"
    using post_upload_B_cases [OF b(1)] b(2)
    by (elim disjE exE conjE) (auto simp: passes_def upload_B_def fileFilter_B_def)
  show ?thesis
    using A B by (simp add: fileFilter_A_def fileFilter_B_def upload_C_def)
qed

text \<open>
  A GIF whose declared type and extension both match, accepted by variant B, and by
  variant A when its sniffer answers at once with the type of a GIF.
\<close>

theorem upload_needs_both_matches_witness:
  "post_upload_A (\<lambda>buffer. Type \<lparr>ext = ''gif'', mime = ''image/gif''\<rparr>) [''app''] False [([''app'', ''public'', ''uploads''], Dir 1)]
      \<lparr>parts = [\<lparr>fieldname = ''image'', originalname = ''pic.GIF'',
          mimetype = ''image/gif'', data = ''GIF89a''\<rparr>],
        now = 1700000000000, random = 123456789\<rparr>
    = (Uploaded (Some ''1700000000000-123456789.gif'') None
        ''/uploads/1700000000000-123456789.gif'' None,
       [([''app'', ''public'', ''uploads''], Dir 1),
        ([''app'', ''public'', ''uploads'', ''1700000000000-123456789.gif''],
          File 1700000000000 ''GIF89a'')])
   \<and> post_upload_B [''app''] False [([''app'', ''public'', ''uploads''], Dir 1)]
      \<lparr>parts = [\<lparr>fieldname = ''image'', originalname = ''pic.GIF'',
          mimetype = ''image/gif'', data = ''GIF89a''\<rparr>],
        now = 1700000000000, random = 123456789\<rparr>
    = (Uploaded (Some ''1700000000000-123456789.gif'') (Some 6)
        ''/uploads/1700000000000-123456789.gif'' (Some ''image/gif''),
       [([''app'', ''public'', ''uploads''], Dir 1),
        ([''app'', ''public'', ''uploads'', ''1700000000000-123456789.gif''],
          File 1700000000000 ''GIF89a'')])
   \<and> filetypes_test_A ''image/gif'' \<and> filetypes_test_A (extname ''pic.GIF'')
   \<and> filetypes_test_B ''image/gif'' \<and> filetypes_test_B (toLowerCase (extname ''pic.GIF''))"
proof -
  note t = upload_needs_both_matches [of "(\<lambda>buffer. Type \<lparr>ext = ''gif'', mime = ''image/gif''\<rparr>)" "[''app'']" False
      "[([''app'', ''public'', ''uploads''], Dir 1)]"
      "\<lparr>parts = [\<lparr>fieldname = ''image'', originalname = ''pic.GIF'',
          mimetype = ''image/gif'', data = ''GIF89a''\<rparr>],
        now = 1700000000000, random = 123456789\<rparr>"
      "Uploaded (Some ''1700000000000-123456789.gif'') None
        ''/uploads/1700000000000-123456789.gif'' None"
      "[([''app'', ''public'', ''uploads''], Dir 1),
        ([''app'', ''public'', ''uploads'', ''1700000000000-123456789.gif''],
          File 1700000000000 ''GIF89a'')]"
      "[''app'']" False "[([''app'', ''public'', ''uploads''], Dir 1)]"
      "\<lparr>parts = [\<lparr>fieldname = ''image'', originalname = ''pic.GIF'',
          mimetype = ''image/gif'', data = ''GIF89a''\<rparr>],
        now = 1700000000000, random = 123456789\<rparr>"
      "Uploaded (Some ''1700000000000-123456789.gif'') (Some 6)
        ''/uploads/1700000000000-123456789.gif'' (Some ''image/gif'')"
      "[([''app'', ''public'', ''uploads''], Dir 1),
        ([''app'', ''public'', ''uploads'', ''1700000000000-123456789.gif''],
          File 1700000000000 ''GIF89a'')]"]
  have "filetypes_test_A ''image/gif'' \<and> filetypes_test_A (extname ''pic.GIF'')
   \<and> filetypes_test_B ''image/gif'' \<and> filetypes_test_B (toLowerCase (extname ''pic.GIF''))"
    using t upload_A_gif upload_B_gif by simp
  then show ?thesis using upload_A_gif upload_B_gif by (intro conjI) simp_all
qed

text \<open>
  C5 as stated fails in variant C: an HTML page is accepted though neither its declared
  type nor its extension matches.
\<close>

theorem upload_C_accepts_any_type:
  "post_upload_C [''app''] [([''app'', ''public'', ''uploads''], Dir 1)]
      \<lparr>parts = [\<lparr>fieldname = ''image'', originalname = ''page.html'',
          mimetype = ''text/html'', data = ''<html>''\<rparr>],
        now = 1700000000000, random = 123456789\<rparr>
    = (Uploaded None None ''/uploads/1700000000000.html'' None,
       [([''app'', ''public'', ''uploads''], Dir 1),
        ([''app'', ''public'', ''uploads'', ''1700000000000.html''],
          File 1700000000000 ''<html>'')])
   \<and> \<not> filetypes_test_A ''text/html'' \<and> \<not> filetypes_test_A (extname ''page.html'')
   \<and> \<not> filetypes_test_B ''text/html''
   \<and> \<not> filetypes_test_B (toLowerCase (extname ''page.html''))"
  by (simp add: upload_eval)

text \<open>
  C6, as amended: variants A and B do not accept a request with a file part of more
  than \<^verbatim>\<open>10 * 1024 * 1024\<close> bytes, nor a request with more than one file part. Variant C
  sets no limit on the size.
\<close>

theorem upload_limits:
  "(post_upload_A fromBuffer dirname limited fs req = (resp, fs') \<longrightarrow>
      (2 \<le> length (parts req)
        \<or> list_ex (\<lambda>file. 10 * 1024 * 1024 < length (data file)) (parts req)) \<longrightarrow>
      \<not> is_Uploaded resp)
   \<and> (post_upload_B dirnameB limitedB fsB reqB = (respB, fsB') \<longrightarrow>
      (2 \<le> length (parts reqB)
        \<or> list_ex (\<lambda>file. 10 * 1024 * 1024 < length (data file)) (parts reqB)) \<longrightarrow>
      \<not> is_Uploaded respB)
   \<and> fileSize upload_A = Some (10 * 1024 * 1024) \<and> files upload_A = Some 1
   \<and> fileSize upload_B = Some (10 * 1024 * 1024) \<and> files upload_B = Some 1
   \<and> fileSize upload_C = None \<and> files upload_C = None"
proof -
  have A: "\<not> is_Uploaded resp"
    if a: "post_upload_A fromBuffer dirname limited fs req = (resp, fs')"
      "2 \<le> length (parts req)
        \<or> list_ex (\<lambda>file. 10 * 1024 * 1024 < length (data file)) (parts req)"
    using post_upload_A_cases [OF a(1)] a(2)
    by (elim disjE exE conjE) (auto simp: passes_def upload_A_def over_limit_def)
  have B: "\<not> is_Uploaded respB"
    if b: "post_upload_B dirnameB limitedB fsB reqB = (respB, fsB')"
      "2 \<le> length (parts reqB)
        \<or> list_ex (\<lambda>file. 10 * 1024 * 1024 < length (data file)) (parts reqB)"
    using post_upload_B_cases [OF b(1)] b(2)
    by (elim disjE exE conjE) (auto simp: passes_def upload_B_def over_limit_def)
  show ?thesis
    using A B by (simp add: upload_A_def upload_B_def upload_C_def)
qed

text \<open>Two file parts sent to variant A, and a file of 10 MiB and one byte sent to variant B.\<close>

theorem upload_limits_witness:
  "post_upload_A sniff_async [''app''] False [([''app'', ''public'', ''uploads''], Dir 1)]
      \<lparr>parts = [\<lparr>fieldname = ''image'', originalname = ''pic.GIF'',
          mimetype = ''image/gif'', data = ''GIF89a''\<rparr>,
         \<lparr>fieldname = ''image'', originalname = ''two.GIF'',
          mimetype = ''image/gif'', data = ''GIF89a''\<rparr>],
        now = 1700000000000, random = 123456789\<rparr>
    = (UploadError LIMIT_FILE_COUNT, [([''app'', ''public'', ''uploads''], Dir 1)])
   \<and> post_upload_B [''app''] False [([''app'', ''public'', ''uploads''], Dir 1)]
      \<lparr>parts = [\<lparr>fieldname = ''image'', originalname = ''pic.GIF'',
          mimetype = ''image/gif'', data = replicate 10485761 (CHR ''G'')\<rparr>],
        now = 1700000000000, random = 123456789\<rparr>
    = (UploadError LIMIT_FILE_SIZE, [([''app'', ''public'', ''uploads''], Dir 1)])
   \<and> \<not> is_Uploaded (UploadError LIMIT_FILE_COUNT) \<and> \<not> is_Uploaded (UploadError LIMIT_FILE_SIZE)"
proof -
  note t = upload_limits [of sniff_async "[''app'']" False
      "[([''app'', ''public'', ''uploads''], Dir 1)]"
      "\<lparr>parts = [\<lparr>fieldname = ''image'', originalname = ''pic.GIF'',
          mimetype = ''image/gif'', data = ''GIF89a''\<rparr>,
         \<lparr>fieldname = ''image'', originalname = ''two.GIF'',
          mimetype = ''image/gif'', data = ''GIF89a''\<rparr>],
        now = 1700000000000, random = 123456789\<rparr>"
      "UploadError LIMIT_FILE_COUNT"
      "[([''app'', ''public'', ''uploads''], Dir 1)]"
      "[''app'']" False "[([''app'', ''public'', ''uploads''], Dir 1)]"
      "\<lparr>parts = [\<lparr>fieldname = ''image'', originalname = ''pic.GIF'',
          mimetype = ''image/gif'', data = replicate 10485761 (CHR ''G'')\<rparr>],
        now = 1700000000000, random = 123456789\<rparr>"
      "UploadError LIMIT_FILE_SIZE"
      "[([''app'', ''public'', ''uploads''], Dir 1)]"]
  have "\<not> is_Uploaded (UploadError LIMIT_FILE_COUNT) \<and> \<not> is_Uploaded (UploadError LIMIT_FILE_SIZE)"
    using t upload_A_two_parts upload_B_too_large by simp
  then show ?thesis using upload_A_two_parts upload_B_too_large by (intro conjI) simp_all
qed

text \<open>
  C6 as stated fails in variant C: a file of 10 MiB and one byte is accepted and stored.
\<close>

theorem upload_C_has_no_size_ceiling:
  "post_upload_C [''app''] [([''app'', ''public'', ''uploads''], Dir 1)]
      \<lparr>parts = [\<lparr>fieldname = ''image'', originalname = ''pic.PNG'',
          mimetype = ''image/png'', data = replicate 10485761 (CHR ''G'')\<rparr>],
        now = 1700000000000, random = 123456789\<rparr>
    = (Uploaded None None ''/uploads/1700000000000.PNG'' None,
       [([''app'', ''public'', ''uploads''], Dir 1),
        ([''app'', ''public'', ''uploads'', ''1700000000000.PNG''],
          File 1700000000000 (replicate 10485761 (CHR ''G'')))])
   \<and> 10 * 1024 * 1024 < length (replicate 10485761 (CHR ''G''))"
  using upload_C_any [of "replicate 10485761 (CHR ''G'')"] by simp

text \<open>
  Variant A is the only one that reads the stored file back. With the promise that
  \<^verbatim>\<open>fileType.fromBuffer\<close> answers with, \<^verbatim>\<open>validateImage\<close> throws for every file that
  \<^verbatim>\<open>multer\<close> stored, so no request to variant A is answered as an accepted upload.
\<close>

lemma promise_never_uploaded:
  "\<not> is_Uploaded (fst (post_upload_A sniff_async dirname limited fs req))"
  by (auto simp: post_upload_A_def validateImage_def sniff_async_def
      split: prod.splits sum.splits option.splits)











section \<open>Properties of listing\<close>

lemma mset_insert_sorted: "mset (insert_sorted cmp x ys) = add_mset x (mset ys)"
  by (induction ys) auto

lemma mset_array_sort: "mset (array_sort cmp xs) = mset xs"
  by (induction xs) (auto simp: array_sort_def mset_insert_sorted)

lemma set_insert_sorted: "set (insert_sorted cmp x ys) = insert x (set ys)"
  by (induction ys) auto

lemma sorted_insert_sorted:
  "sorted_wrt (\<lambda>a b. k b \<le> k a) ys \<Longrightarrow>
     sorted_wrt (\<lambda>a b. k b \<le> k a) (insert_sorted (\<lambda>a b. k b - k a) x ys)"
  for k :: "'a \<Rightarrow> int"
proof (induction ys)
  case Nil
  then show ?case by simp
next
  case (Cons y ys)
  show ?case
  proof (cases "k y \<le> k x")
    case True
    then show ?thesis using Cons.prems by auto
  next
    case False
    then show ?thesis using Cons by (auto simp: set_insert_sorted)
  qed
qed

lemma sorted_array_sort:
  "sorted_wrt (\<lambda>a b. k b \<le> k a) (array_sort (\<lambda>a b. k b - k a) xs)"
  for k :: "'a \<Rightarrow> int"
  by (induction xs) (auto simp: array_sort_def sorted_insert_sorted)

lemma dashboard_Page:
  assumes "dashboard exts dirname fs = Page images"
  shows "\<exists>names. readdirSync fs (uploadDir dirname) = Inr names
     \<and> mset images = mset (filter (\<lambda>file. toLowerCase (extname file) \<in> set exts) names)
     \<and> sorted_wrt (\<lambda>a b. mtime_of dirname fs b \<le> mtime_of dirname fs a) images"
  using assms
  by (auto simp: dashboard_def Let_def mset_array_sort sorted_array_sort
      split: sum.splits if_splits)

text \<open>
  C9, as amended: the page of variants A and B shows exactly the entries of the upload
  directory whose extension, in lower case, is one of \<^verbatim>\<open>.jpg\<close>, \<^verbatim>\<open>.jpeg\<close>, \<^verbatim>\<open>.png\<close>, \<^verbatim>\<open>.gif\<close>
  (and \<^verbatim>\<open>.webp\<close> in variant A), each as often as the directory has it, sorted by
  modification time, the most recent first. \<^verbatim>\<open>GET /dashboard\<close> of variant C shows every
  entry, in the order of enumeration.
\<close>

theorem dashboard_filtered_sorted:
  "(dashboard_A dirname fs = Page images \<longrightarrow>
      (\<exists>names. readdirSync fs (uploadDir dirname) = Inr names
        \<and> mset images = mset (filter (\<lambda>file. toLowerCase (extname file)
              \<in> set [''.jpg'', ''.jpeg'', ''.png'', ''.gif'', ''.webp'']) names)
        \<and> sorted_wrt (\<lambda>a b. mtime_of dirname fs b \<le> mtime_of dirname fs a) images))
   \<and> (dashboard_B dirnameB fsB = Page imagesB \<longrightarrow>
      (\<exists>names. readdirSync fsB (uploadDir dirnameB) = Inr names
        \<and> mset imagesB = mset (filter (\<lambda>file. toLowerCase (extname file)
              \<in> set [''.jpg'', ''.jpeg'', ''.png'', ''.gif'']) names)
        \<and> sorted_wrt (\<lambda>a b. mtime_of dirnameB fsB b \<le> mtime_of dirnameB fsB a) imagesB))
   \<and> (dashboard_C dirnameC fsC = Gallery entries \<longrightarrow>
      readdirSync fsC (uploadDir dirnameC) = Inr (map fst entries))"
proof -
  have C: "readdirSync fsC (uploadDir dirnameC) = Inr (map fst entries)"
    if "dashboard_C dirnameC fsC = Gallery entries"
    using that by (auto simp: dashboard_C_def comp_def split: sum.splits)
  show ?thesis
    using dashboard_Page [of _ dirname fs images] dashboard_Page [of _ dirnameB fsB imagesB] C
    unfolding dashboard_A_def dashboard_B_def by blast
qed

lemma dashboard_A_demo:
  "dashboard_A [''app''] [([''app'', ''public'', ''uploads''], Dir 1),
        ([''app'', ''public'', ''uploads'', ''notes.txt''], File 5 ''hello''),
        ([''app'', ''public'', ''uploads'', ''old.PNG''], File 10 ''GIF89a''),
        ([''app'', ''public'', ''uploads'', ''new.webp''], File 20 ''RIFF'')]
    = Page [''new.webp'', ''old.PNG'']"
  by code_simp

lemma dashboard_B_demo:
  "dashboard_B [''app''] [([''app'', ''public'', ''uploads''], Dir 1),
        ([''app'', ''public'', ''uploads'', ''notes.txt''], File 5 ''hello''),
        ([''app'', ''public'', ''uploads'', ''old.PNG''], File 10 ''GIF89a''),
        ([''app'', ''public'', ''uploads'', ''new.gif''], File 20 ''GIF89a'')]
    = Page [''new.gif'', ''old.PNG'']"
  by code_simp

text \<open>
  C9 as stated fails in variant C: the text file is listed, and the older image comes
  before the newer one.
\<close>

theorem dashboard_C_unfiltered_unsorted:
  "dashboard_C [''app''] [([''app'', ''public'', ''uploads''], Dir 1),
        ([''app'', ''public'', ''uploads'', ''notes.txt''], File 5 ''hello''),
        ([''app'', ''public'', ''uploads'', ''old.PNG''], File 10 ''GIF89a''),
        ([''app'', ''public'', ''uploads'', ''new.webp''], File 20 ''RIFF'')]
    = Gallery [(''notes.txt'', ''/uploads/notes.txt''), (''old.PNG'', ''/uploads/old.PNG''),
        (''new.webp'', ''/uploads/new.webp'')]
   \<and> extname ''notes.txt'' = ''.txt''"
  by code_simp

lemma dashboard_C_demo:
  "dashboard_C [''app''] [([''app'', ''public'', ''uploads''], Dir 1),
        ([''app'', ''public'', ''uploads'', ''notes.txt''], File 5 ''hello''),
        ([''app'', ''public'', ''uploads'', ''old.PNG''], File 10 ''GIF89a''),
        ([''app'', ''public'', ''uploads'', ''new.webp''], File 20 ''RIFF'')]
    = Gallery [(''notes.txt'', ''/uploads/notes.txt''), (''old.PNG'', ''/uploads/old.PNG''),
        (''new.webp'', ''/uploads/new.webp'')]"
  by code_simp

text \<open>
  A directory with a text file, an older image and a newer one.
\<close>

theorem dashboard_filtered_sorted_witness:
  "dashboard_A [''app''] [([''app'', ''public'', ''uploads''], Dir 1),
        ([''app'', ''public'', ''uploads'', ''notes.txt''], File 5 ''hello''),
        ([''app'', ''public'', ''uploads'', ''old.PNG''], File 10 ''GIF89a''),
        ([''app'', ''public'', ''uploads'', ''new.webp''], File 20 ''RIFF'')]
    = Page [''new.webp'', ''old.PNG'']
   \<and> dashboard_B [''app''] [([''app'', ''public'', ''uploads''], Dir 1),
        ([''app'', ''public'', ''uploads'', ''notes.txt''], File 5 ''hello''),
        ([''app'', ''public'', ''uploads'', ''old.PNG''], File 10 ''GIF89a''),
        ([''app'', ''public'', ''uploads'', ''new.gif''], File 20 ''GIF89a'')]
    = Page [''new.gif'', ''old.PNG'']
   \<and> sorted_wrt (\<lambda>a b. mtime_of [''app''] [([''app'', ''public'', ''uploads''], Dir 1),
        ([''app'', ''public'', ''uploads'', ''notes.txt''], File 5 ''hello''),
        ([''app'', ''public'', ''uploads'', ''old.PNG''], File 10 ''GIF89a''),
        ([''app'', ''public'', ''uploads'', ''new.webp''], File 20 ''RIFF'')] b
        \<le> mtime_of [''app''] [([''app'', ''public'', ''uploads''], Dir 1),
        ([''app'', ''public'', ''uploads'', ''notes.txt''], File 5 ''hello''),
        ([''app'', ''public'', ''uploads'', ''old.PNG''], File 10 ''GIF89a''),
        ([''app'', ''public'', ''uploads'', ''new.webp''], File 20 ''RIFF'')] a) [''new.webp'', ''old.PNG'']
   \<and> sorted_wrt (\<lambda>a b. mtime_of [''app''] [([''app'', ''public'', ''uploads''], Dir 1),
        ([''app'', ''public'', ''uploads'', ''notes.txt''], File 5 ''hello''),
        ([''app'', ''public'', ''uploads'', ''old.PNG''], File 10 ''GIF89a''),
        ([''app'', ''public'', ''uploads'', ''new.gif''], File 20 ''GIF89a'')] b
        \<le> mtime_of [''app''] [([''app'', ''public'', ''uploads''], Dir 1),
        ([''app'', ''public'', ''uploads'', ''notes.txt''], File 5 ''hello''),
        ([''app'', ''public'', ''uploads'', ''old.PNG''], File 10 ''GIF89a''),
        ([''app'', ''public'', ''uploads'', ''new.gif''], File 20 ''GIF89a'')] a) [''new.gif'', ''old.PNG'']
   \<and> readdirSync [([''app'', ''public'', ''uploads''], Dir 1),
        ([''app'', ''public'', ''uploads'', ''notes.txt''], File 5 ''hello''),
        ([''app'', ''public'', ''uploads'', ''old.PNG''], File 10 ''GIF89a''),
        ([''app'', ''public'', ''uploads'', ''new.webp''], File 20 ''RIFF'')] (uploadDir [''app''])
    = Inr [''notes.txt'', ''old.PNG'', ''new.webp'']"
proof -
  note t = dashboard_filtered_sorted [of "[''app'']" "[([''app'', ''public'', ''uploads''], Dir 1),
        ([''app'', ''public'', ''uploads'', ''notes.txt''], File 5 ''hello''),
        ([''app'', ''public'', ''uploads'', ''old.PNG''], File 10 ''GIF89a''),
        ([''app'', ''public'', ''uploads'', ''new.webp''], File 20 ''RIFF'')]" "[''new.webp'', ''old.PNG'']"
      "[''app'']" "[([''app'', ''public'', ''uploads''], Dir 1),
        ([''app'', ''public'', ''uploads'', ''notes.txt''], File 5 ''hello''),
        ([''app'', ''public'', ''uploads'', ''old.PNG''], File 10 ''GIF89a''),
        ([''app'', ''public'', ''uploads'', ''new.gif''], File 20 ''GIF89a'')]" "[''new.gif'', ''old.PNG'']"
      "[''app'']" "[([''app'', ''public'', ''uploads''], Dir 1),
        ([''app'', ''public'', ''uploads'', ''notes.txt''], File 5 ''hello''),
        ([''app'', ''public'', ''uploads'', ''old.PNG''], File 10 ''GIF89a''),
        ([''app'', ''public'', ''uploads'', ''new.webp''], File 20 ''RIFF'')]" "[(''notes.txt'', ''/uploads/notes.txt''), (''old.PNG'', ''/uploads/old.PNG''),
        (''new.webp'', ''/uploads/new.webp'')]"]
  have a: "sorted_wrt (\<lambda>a b. mtime_of [''app''] [([''app'', ''public'', ''uploads''], Dir 1),
        ([''app'', ''public'', ''uploads'', ''notes.txt''], File 5 ''hello''),
        ([''app'', ''public'', ''uploads'', ''old.PNG''], File 10 ''GIF89a''),
        ([''app'', ''public'', ''uploads'', ''new.webp''], File 20 ''RIFF'')] b
        \<le> mtime_of [''app''] [([''app'', ''public'', ''uploads''], Dir 1),
        ([''app'', ''public'', ''uploads'', ''notes.txt''], File 5 ''hello''),
        ([''app'', ''public'', ''uploads'', ''old.PNG''], File 10 ''GIF89a''),
        ([''app'', ''public'', ''uploads'', ''new.webp''], File 20 ''RIFF'')] a) [''new.webp'', ''old.PNG'']"
    using t dashboard_A_demo by blast
  have b: "sorted_wrt (\<lambda>a b. mtime_of [''app''] [([''app'', ''public'', ''uploads''], Dir 1),
        ([''app'', ''public'', ''uploads'', ''notes.txt''], File 5 ''hello''),
        ([''app'', ''public'', ''uploads'', ''old.PNG''], File 10 ''GIF89a''),
        ([''app'', ''public'', ''uploads'', ''new.gif''], File 20 ''GIF89a'')] b
        \<le> mtime_of [''app''] [([''app'', ''public'', ''uploads''], Dir 1),
        ([''app'', ''public'', ''uploads'', ''notes.txt''], File 5 ''hello''),
        ([''app'', ''public'', ''uploads'', ''old.PNG''], File 10 ''GIF89a''),
        ([''app'', ''public'', ''uploads'', ''new.gif''], File 20 ''GIF89a'')] a) [''new.gif'', ''old.PNG'']"
    using t dashboard_B_demo by blast
  have c: "readdirSync [([''app'', ''public'', ''uploads''], Dir 1),
        ([''app'', ''public'', ''uploads'', ''notes.txt''], File 5 ''hello''),
        ([''app'', ''public'', ''uploads'', ''old.PNG''], File 10 ''GIF89a''),
        ([''app'', ''public'', ''uploads'', ''new.webp''], File 20 ''RIFF'')] (uploadDir [''app''])
    = Inr [''notes.txt'', ''old.PNG'', ''new.webp'']"
    using t dashboard_C_demo by simp
  show ?thesis using a b c dashboard_A_demo dashboard_B_demo by (intro conjI)
qed

end
